theory Spec2Isabelle
  imports Complex_Main
begin

section \<open>Python strings\<close>

text \<open>
  A Python \<open>str\<close> is modelled as a \<open>string\<close> whose characters are the code points
  below 256. The string methods used by \<open>api/index.py\<close> are written out below. Where a
  library function can leave that range or looks at Unicode data, its result is a parameter
  of the model (see the record \<open>pylib\<close>).
\<close>

definition is_space :: "char \<Rightarrow> bool" where
  \<comment> \<open>the characters \<open>str.strip()\<close> removes: \<open>str.isspace()\<close> below code point 256\<close>
  "is_space c = (of_char c \<in> {9, 10, 11, 12, 13, 28, 29, 30, 31, 32, 133, 160 :: nat})"

definition str_lstrip :: "string \<Rightarrow> string" where
  "str_lstrip s = dropWhile is_space s"

definition str_rstrip :: "string \<Rightarrow> string" where
  "str_rstrip s = rev (dropWhile is_space (rev s))"

definition str_strip :: "string \<Rightarrow> string" where
  "str_strip s = str_lstrip (str_rstrip s)"

definition str_rstrip_char :: "char \<Rightarrow> string \<Rightarrow> string" where
  \<comment> \<open>\<open>s.rstrip(c)\<close> for a one-character argument\<close>
  "str_rstrip_char c s = rev (dropWhile (\<lambda>x. x = c) (rev s))"

definition str_startswith :: "string \<Rightarrow> string \<Rightarrow> bool" where
  \<comment> \<open>\<open>s.startswith(p)\<close>\<close>
  "str_startswith p s = (take (length p) s = p)"

fun str_contains :: "string \<Rightarrow> string \<Rightarrow> bool" where
  \<comment> \<open>\<open>sub in s\<close>\<close>
  "str_contains sub [] = (sub = [])"
| "str_contains sub (c # cs) = (str_startswith sub (c # cs) \<or> str_contains sub cs)"

fun replace_nonempty :: "string \<Rightarrow> string \<Rightarrow> string \<Rightarrow> string" where
  \<comment> \<open>left-to-right replacement of the non-overlapping occurrences of a non-empty \<open>old\<close>\<close>
  "replace_nonempty old new [] = []"
| "replace_nonempty old new (c # cs) =
     (if str_startswith old (c # cs) then new @ replace_nonempty old new (drop (length old - 1) cs)
      else c # replace_nonempty old new cs)"

definition str_replace :: "string \<Rightarrow> string \<Rightarrow> string \<Rightarrow> string" where
  \<comment> \<open>\<open>s.replace(old, new)\<close>; an empty \<open>old\<close> matches before every character and at the end\<close>
  "str_replace old new s =
     (if old = [] then new @ concat (map (\<lambda>c. c # new) s) else replace_nonempty old new s)"

fun str_split :: "char \<Rightarrow> string \<Rightarrow> string list" where
  \<comment> \<open>\<open>s.split(c)\<close> for a one-character separator\<close>
  "str_split sep [] = [[]]"
| "str_split sep (c # cs) =
     (if c = sep then [] # str_split sep cs
      else (case str_split sep cs of [] \<Rightarrow> [[c]] | w # ws \<Rightarrow> (c # w) # ws))"

definition last_two :: "'a list \<Rightarrow> 'a list" where
  \<comment> \<open>the slice \<open>xs[-2:]\<close>\<close>
  "last_two xs = drop (length xs - 2) xs"

definition lower_char :: "char \<Rightarrow> char" where
  \<comment> \<open>\<open>str.lower()\<close> on one code point below 256: A-Z and the Latin-1 capitals\<close>
  "lower_char c =
     (let n = (of_char c :: nat)
      in if (65 \<le> n \<and> n \<le> 90) \<or> (192 \<le> n \<and> n \<le> 214) \<or> (216 \<le> n \<and> n \<le> 222)
         then char_of (n + 32) else c)"

definition str_lower :: "string \<Rightarrow> string" where
  "str_lower s = map lower_char s"

definition is_ascii :: "char \<Rightarrow> bool" where
  "is_ascii c = ((of_char c :: nat) < 128)"

definition upper_char :: "char \<Rightarrow> char" where
  \<comment> \<open>\<open>str.upper()\<close> on one ASCII character; it is applied to the hex digests of
      \<open>hashlib\<close>, which are ASCII, and to ASCII text only\<close>
  "upper_char c =
     (let n = (of_char c :: nat) in if 97 \<le> n \<and> n \<le> 122 then char_of (n - 32) else c)"

definition str_upper :: "string \<Rightarrow> string" where
  "str_upper s = map upper_char s"

subsection \<open>\<open>urllib.parse.quote\<close>\<close>

definition unreserved :: "char \<Rightarrow> bool" where
  \<comment> \<open>the characters \<open>quote\<close> never encodes: ASCII letters, digits and \<open>_.-~\<close>\<close>
  "unreserved c =
     (let n = (of_char c :: nat)
      in (65 \<le> n \<and> n \<le> 90) \<or> (97 \<le> n \<and> n \<le> 122) \<or> (48 \<le> n \<and> n \<le> 57)
         \<or> c \<in> set ''_.-~'')"

definition hex_digit :: "nat \<Rightarrow> char" where
  "hex_digit d = (if d < 10 then char_of (48 + d) else char_of (55 + d))"

definition percent_byte :: "nat \<Rightarrow> string" where
  "percent_byte b = [CHR ''%'', hex_digit (b div 16), hex_digit (b mod 16)]"

definition utf8_bytes :: "char \<Rightarrow> nat list" where
  \<comment> \<open>the UTF-8 encoding of a code point below 256\<close>
  "utf8_bytes c =
     (let n = (of_char c :: nat) in if n < 128 then [n] else [192 + n div 64, 128 + n mod 64])"

definition quote :: "string \<Rightarrow> string" where
  \<comment> \<open>\<open>urllib.parse.quote(s)\<close> with its default \<open>safe='/'\<close>\<close>
  "quote s =
     concat (map (\<lambda>c. if unreserved c \<or> c = CHR ''/'' then [c]
                       else concat (map percent_byte (utf8_bytes c))) s)"

section \<open>JSON values, exceptions, HTTP\<close>

datatype json =
    JNull
  | JBool bool
  | JInt int
  | JFloat real
  | JStr string
  | JArr "json list"
  | JObj "(string \<times> json) list"

fun truthy :: "json \<Rightarrow> bool" where
  \<comment> \<open>Python truth value of a decoded JSON value (\<open>JNull\<close> is \<open>None\<close>)\<close>
  "truthy JNull = False"
| "truthy (JBool b) = b"
| "truthy (JInt i) = (i \<noteq> 0)"
| "truthy (JFloat x) = (x \<noteq> 0)"
| "truthy (JStr s) = (s \<noteq> [])"
| "truthy (JArr xs) = (xs \<noteq> [])"
| "truthy (JObj kv) = (kv \<noteq> [])"

datatype exn =
    RuntimeError string
  | ValueError
  | AttributeError
  | TypeError
  | OverflowError
  | RequestException

fun is_dict :: "json \<Rightarrow> bool" where
  \<comment> \<open>\<open>isinstance(v, dict)\<close>\<close>
  "is_dict (JObj kv) = True"
| "is_dict _ = False"

fun dict_get :: "json \<Rightarrow> string \<Rightarrow> json \<Rightarrow> exn + json" where
  \<comment> \<open>\<open>v.get(k, d)\<close>: only a dict has the method\<close>
  "dict_get (JObj kv) k d = Inr (case map_of kv k of None \<Rightarrow> d | Some v \<Rightarrow> v)"
| "dict_get _ k d = Inl AttributeError"

datatype http_method = GET | POST

record request =
  req_method :: http_method
  req_url :: string
  req_headers :: "(string \<times> string) list"
  req_cookies :: "(string \<times> string) list"
  req_timeout :: nat

text \<open>
  A response as the code reads it: \<open>resp.status_code\<close>, \<open>resp.text\<close>, and what
  \<open>resp.json()\<close> returns (\<open>None\<close> when the body is not JSON and the call raises a
  \<open>ValueError\<close>).
\<close>

record response =
  status_code :: int
  resp_text :: string
  resp_json :: "json option"

definition resp_ok :: "response \<Rightarrow> bool" where
  \<comment> \<open>the truth value of a \<open>requests.Response\<close>: no 4xx or 5xx status\<close>
  "resp_ok r = (\<not> (400 \<le> status_code r \<and> status_code r < 600))"

text \<open>
  The portal answers a request knowing every request sent before it; \<open>None\<close> is a
  transport failure (connection error, timeout), which \<open>requests\<close> raises as an exception.
  The list of requests sent so far is the network state the functions below pass along.
\<close>

type_synonym upstream = "request list \<Rightarrow> request \<Rightarrow> response option"

text \<open>
  A \<open>requests.Session\<close> is its cookie jar; the code puts one cookie in it.
\<close>

record session =
  sess_cookies :: "(string \<times> string) list"

definition mk_request :: "session \<Rightarrow> http_method \<Rightarrow> string \<Rightarrow> (string \<times> string) list \<Rightarrow> nat \<Rightarrow> request" where
  "mk_request s m u h t =
     \<lparr>req_method = m, req_url = u, req_headers = h, req_cookies = sess_cookies s, req_timeout = t\<rparr>"

definition send :: "upstream \<Rightarrow> request \<Rightarrow> request list \<Rightarrow> (exn + response) \<times> request list" where
  "send up rq sent =
     ((case up sent rq of None \<Rightarrow> Inl RequestException | Some r \<Rightarrow> Inr r), sent @ [rq])"

definition portal_prefix :: "string \<Rightarrow> string" where
  "portal_prefix portal_type = (if portal_type = ''1'' then ''stalker_portal'' else ''c'')"

section \<open>\<open>create_link\<close>\<close>

definition link_url :: "string \<Rightarrow> string \<Rightarrow> string \<Rightarrow> string" where
  "link_url base_url cmd portal_type =
     base_url @ ''/'' @ portal_prefix portal_type
       @ ''/server/load.php?type=itv&action=create_link&cmd=''
       @ quote (str_replace ''ffrt '' [] (str_strip cmd)) @ ''&JsHttpRequest=1-xml''"

definition link_attempt :: "exn + response \<Rightarrow> exn + string option" where
  \<comment> \<open>the body of the \<open>try\<close> after \<open>session.get\<close>: \<open>Inl\<close> an exception for the \<open>except\<close>
      clause, \<open>Inr None\<close> the end of the iteration, \<open>Inr (Some u)\<close> the \<open>return\<close>\<close>
  "link_attempt got =
     (case got of
        Inl e \<Rightarrow> Inl e
      | Inr resp \<Rightarrow>
          if status_code resp \<noteq> 200 then Inr None
          else (case resp_json resp of
                  None \<Rightarrow> Inl ValueError
                | Some d \<Rightarrow>
                    (case dict_get d ''js'' (JObj []) of
                       Inl e \<Rightarrow> Inl e
                     | Inr js \<Rightarrow>
                         if is_dict js then
                           (case dict_get js ''cmd'' JNull of
                              Inl e \<Rightarrow> Inl e
                            | Inr c \<Rightarrow>
                                if truthy c then
                                  (case c of
                                     JStr s \<Rightarrow> Inr (Some (str_strip (str_replace ''ffrt '' [] s)))
                                   | _ \<Rightarrow> Inl AttributeError)
                                else Inr None)
                         else Inr None)))"

fun link_loop ::
  "upstream \<Rightarrow> session option \<Rightarrow> string \<Rightarrow> (string \<times> string) list \<Rightarrow> nat \<Rightarrow> request list
     \<Rightarrow> string option \<times> request list" where
  \<comment> \<open>\<open>for attempt in range(retries)\<close>; after a caught exception the code sleeps half a
      second and goes on (the pause changes no value and sends nothing, and is left out).
      A missing session makes \<open>session.get\<close> itself raise.\<close>
  "link_loop up so u h 0 sent = (None, sent)"
| "link_loop up so u h (Suc n) sent =
     (case (case so of
              None \<Rightarrow> (Inl AttributeError, sent)
            | Some s \<Rightarrow> send up (mk_request s GET u h 8) sent) of
        (got, sent') \<Rightarrow>
          (case link_attempt got of
             Inr (Some r) \<Rightarrow> (Some r, sent')
           | Inr None \<Rightarrow> link_loop up so u h n sent'
           | Inl e \<Rightarrow> link_loop up so u h n sent'))"

definition create_link ::
  "upstream \<Rightarrow> string \<Rightarrow> string \<Rightarrow> session option \<Rightarrow> (string \<times> string) list \<Rightarrow> string \<Rightarrow> nat
     \<Rightarrow> request list \<Rightarrow> string option \<times> request list" where
  "create_link up base_url cmd so h portal_type retries sent =
     link_loop up so (link_url base_url cmd portal_type) h retries sent"


section \<open>Library functions taken as parameters\<close>

text \<open>
  What the libraries compute and \<open>api/index.py\<close> only calls is a parameter of the model:
  \<^item> \<open>md5_hex\<close>, \<open>sha256_hex\<close>: the hex digest of the UTF-8 encoding of a string;
  \<^item> \<open>py_str\<close>: the text an f-string inserts for a value that is not a string;
  \<^item> \<open>bracketed_host_ok\<close>: the validation \<open>urlsplit\<close> applies to a network location with
    a host in square brackets;
  \<^item> \<open>nfkc_ok\<close>: the check \<open>urlsplit\<close> applies to a network location that is not ASCII
    (none of \<open>/?#@:\<close> may appear under NFKC normalisation);
  \<^item> \<open>quote_upper\<close>: \<open>urllib.parse.quote(s.upper())\<close> for a string that is not ASCII, whose
    upper-casing can change its length and leave the range of the model;
  \<^item> \<open>float_add_int\<close>: the sum of a float and an int as Python computes it. The int is
    converted to a float, which raises \<open>OverflowError\<close> when it is too large (\<open>None\<close>), and
    the sum is rounded to a float. A float is represented by the real number it denotes.
\<close>

record pylib =
  md5_hex :: "string \<Rightarrow> string"
  sha256_hex :: "string \<Rightarrow> string"
  py_str :: "json \<Rightarrow> string"
  bracketed_host_ok :: "string \<Rightarrow> bool"
  nfkc_ok :: "string \<Rightarrow> bool"
  quote_upper :: "string \<Rightarrow> string"
  float_add_int :: "real \<Rightarrow> int \<Rightarrow> real option"

definition format_value :: "pylib \<Rightarrow> json \<Rightarrow> string" where
  \<comment> \<open>\<open>f"{v}"\<close>: a string is inserted as it is\<close>
  "format_value lib v = (case v of JStr s \<Rightarrow> s | _ \<Rightarrow> py_str lib v)"

section \<open>\<open>normalize_url_and_name\<close>\<close>

definition ascii_alpha :: "char \<Rightarrow> bool" where
  "ascii_alpha c =
     (let n = (of_char c :: nat) in (65 \<le> n \<and> n \<le> 90) \<or> (97 \<le> n \<and> n \<le> 122))"

definition scheme_char :: "char \<Rightarrow> bool" where
  \<comment> \<open>\<open>urllib.parse.scheme_chars\<close>: ASCII letters, digits and \<open>+-.\<close>\<close>
  "scheme_char c =
     (let n = (of_char c :: nat)
      in (65 \<le> n \<and> n \<le> 90) \<or> (97 \<le> n \<and> n \<le> 122) \<or> (48 \<le> n \<and> n \<le> 57)
         \<or> c \<in> set ''+-.'')"

definition netloc_char :: "char \<Rightarrow> bool" where
  \<comment> \<open>a character that does not end the network location\<close>
  "netloc_char c = (c \<notin> set ''/?#'')"

definition urlsplit :: "pylib \<Rightarrow> string \<Rightarrow> exn + string \<times> string \<times> string" where
  \<comment> \<open>\<open>urllib.parse.urlsplit\<close> up to the network location: leading C0 controls and spaces
      are dropped, tab, CR and LF are removed, a valid scheme before the first colon is split
      off and lower-cased, and after \<open>//\<close> the network location runs to the first of
      \<open>/?#\<close>. A netloc with one kind of square bracket only, with a bracketed host the
      library finds invalid, or failing the NFKC check (made when it is not empty and not
      ASCII) raises \<open>ValueError\<close>. The result is scheme, netloc and the rest (path, query and
      fragment, which no caller reads).\<close>
  "urlsplit lib url0 =
     (let url1 = filter (\<lambda>c. c \<notin> set [CHR 0x09, CHR 0x0D, CHR 0x0A])
                   (dropWhile (\<lambda>c. (of_char c :: nat) \<le> 32) url0);
          pre = takeWhile (\<lambda>c. c \<noteq> CHR '':'') url1;
          split_scheme = (CHR '':'' \<in> set url1 \<and> pre \<noteq> [] \<and> ascii_alpha (hd url1)
                           \<and> list_all scheme_char pre);
          scheme = (if split_scheme then str_lower pre else []);
          url2 = (if split_scheme then drop (length pre + 1) url1 else url1)
      in if take 2 url2 = ''//'' then
           (let netloc = takeWhile netloc_char (drop 2 url2);
                rest = dropWhile netloc_char (drop 2 url2)
            in if CHR ''['' \<in> set netloc \<and> CHR '']'' \<notin> set netloc then Inl ValueError
               else if CHR '']'' \<in> set netloc \<and> CHR ''['' \<notin> set netloc then Inl ValueError
               else if CHR ''['' \<in> set netloc \<and> CHR '']'' \<in> set netloc
                       \<and> \<not> bracketed_host_ok lib netloc then Inl ValueError
               else if netloc \<noteq> [] \<and> \<not> list_all is_ascii netloc \<and> \<not> nfkc_ok lib netloc
               then Inl ValueError
               else Inr (scheme, netloc, rest))
         else Inr (scheme, [], url2))"

definition urljoin_root :: "pylib \<Rightarrow> string \<Rightarrow> exn + string" where
  \<comment> \<open>\<open>urllib.parse.urljoin(base, "/")\<close> for a base whose scheme is \<open>http\<close> or \<open>https\<close>
      (the caller has put one in front): the base's scheme and netloc with the path \<open>/\<close>.
      For an empty netloc \<open>urlunsplit\<close> still writes the \<open>//\<close>.\<close>
  "urljoin_root lib base =
     (case urlsplit lib base of
        Inl e \<Rightarrow> Inl e
      | Inr (scheme, netloc, rest) \<Rightarrow> Inr (scheme @ '':'' @ ''//'' @ netloc @ ''/''))"

definition normalize_url_and_name :: "pylib \<Rightarrow> string \<Rightarrow> exn + string \<times> string" where
  "normalize_url_and_name lib input_url =
     (let url = str_strip input_url;
          url = (if \<not> str_startswith ''http://'' url \<and> \<not> str_startswith ''https://'' url
                 then ''http://'' @ url else url)
      in case urljoin_root lib url of
           Inl e \<Rightarrow> Inl e
         | Inr joined \<Rightarrow>
             (let url = str_rstrip_char CHR ''/'' joined
              in case urlsplit lib url of
                   Inl e \<Rightarrow> Inl e
                 | Inr (scheme, netloc, rest) \<Rightarrow>
                     (let name_part =
                            (if CHR ''.'' \<in> set netloc
                             then concat (last_two (str_split CHR ''.'' netloc))
                             else str_replace ''.'' [] netloc)
                      in Inr (url, str_lower name_part))))"

section \<open>\<open>generate_device_info\<close>\<close>

record device_info =
  SN :: string
  SNCUT :: string
  Device_ID1 :: string
  Device_ID2 :: string
  Signature :: string
  MAC_Encoded :: string

definition generate_device_info :: "pylib \<Rightarrow> string \<Rightarrow> device_info" where
  "generate_device_info lib mac =
     (let sn = str_upper (md5_hex lib mac);
          sncut = take 13 sn;
          dev1 = str_upper (sha256_hex lib mac);
          dev2 = str_upper (sha256_hex lib sncut);
          signature = str_upper (sha256_hex lib (sncut @ mac))
      in \<lparr>SN = sn, SNCUT = sncut, Device_ID1 = dev1, Device_ID2 = dev2,
          Signature = signature,
          MAC_Encoded = (if list_all is_ascii mac then quote (str_upper mac)
                         else quote_upper lib mac)\<rparr>)"

section \<open>\<open>init_portal_session_and_channels\<close>\<close>

definition base_headers :: "string \<Rightarrow> string \<Rightarrow> (string \<times> string) list" where
  "base_headers base_url prefix =
     [(''User-Agent'', ''Mozilla/5.0 (QtEmbedded; U; Linux; C) AppleWebKit/533.3 (KHTML, like Gecko) MAG200 stbapp ver: 2 rev: 250 Safari/533.3''),
      (''X-User-Agent'', ''Model: MAG250; Link: WiFi''),
      (''Referer'', base_url @ ''/'' @ prefix @ ''/c/''),
      (''Accept'', ''*/*''),
      (''Connection'', ''Keep-Alive''),
      (''Accept-Encoding'', ''gzip'')]"

definition handshake_url :: "string \<Rightarrow> string \<Rightarrow> string" where
  "handshake_url base_url prefix =
     base_url @ ''/'' @ prefix
       @ ''/server/load.php?action=handshake&type=stb&token=&JsHttpRequest=1-xml''"

definition profile_url :: "pylib \<Rightarrow> string \<Rightarrow> string \<Rightarrow> string \<Rightarrow> string" where
  "profile_url lib base_url prefix mac =
     (let device_info = generate_device_info lib mac;
          sn = SNCUT device_info;
          device_id = Device_ID1 device_info;
          signature = Signature device_info
      in base_url @ ''/'' @ prefix @ ''/server/load.php?type=stb&action=get_profile&sn='' @ sn
           @ ''&device_id='' @ device_id @ ''&device_id2='' @ device_id
           @ ''&signature='' @ signature @ ''&JsHttpRequest=1-xml'')"

definition all_url :: "string \<Rightarrow> string \<Rightarrow> string" where
  "all_url base_url prefix =
     base_url @ ''/'' @ prefix
       @ ''/server/load.php?type=itv&action=get_all_channels&JsHttpRequest=1-xml''"

definition handshake_js :: "response \<Rightarrow> exn + json" where
  \<comment> \<open>\<open>resp.json().get("js", {}) if resp and resp.status_code == 200 else {}\<close>\<close>
  "handshake_js resp =
     (if resp_ok resp \<and> status_code resp = 200
      then (case resp_json resp of
              None \<Rightarrow> Inl ValueError
            | Some d \<Rightarrow> dict_get d ''js'' (JObj []))
      else Inr (JObj []))"

definition catalog_channels :: "response \<Rightarrow> exn + json" where
  \<comment> \<open>\<open>data = resp.json() if resp and resp.status_code == 200 else {}\<close>, then
      \<open>data.get("js", {}).get("data", []) if isinstance(data, dict) else []\<close>\<close>
  "catalog_channels resp =
     (case (if resp_ok resp \<and> status_code resp = 200
            then (case resp_json resp of None \<Rightarrow> Inl ValueError | Some d \<Rightarrow> Inr d)
            else Inr (JObj [])) of
        Inl e \<Rightarrow> Inl e
      | Inr data \<Rightarrow>
          if is_dict data then
            (case dict_get data ''js'' (JObj []) of
               Inl e \<Rightarrow> Inl e
             | Inr js \<Rightarrow> dict_get js ''data'' (JArr []))
          else Inr (JArr []))"

definition init_portal_session_and_channels ::
  "pylib \<Rightarrow> upstream \<Rightarrow> string \<Rightarrow> string \<Rightarrow> string \<Rightarrow> request list
     \<Rightarrow> (exn + session \<times> (string \<times> string) list \<times> json) \<times> request list" where
  "init_portal_session_and_channels lib up base_url mac portal_type sent =
     (let session = \<lparr>sess_cookies = [(''mac'', mac)]\<rparr>;
          prefix = portal_prefix portal_type;
          headers = base_headers base_url prefix
      in case send up (mk_request session POST (handshake_url base_url prefix) headers 10) sent of
           (Inl e, sent1) \<Rightarrow> (Inl e, sent1)
         | (Inr resp, sent1) \<Rightarrow>
             (case handshake_js resp of
                Inl e \<Rightarrow> (Inl e, sent1)
              | Inr js \<Rightarrow>
                  (case dict_get js ''token'' JNull of
                     Inl e \<Rightarrow> (Inl e, sent1)
                   | Inr token \<Rightarrow>
                       if \<not> truthy token
                       then (Inl (RuntimeError ''Handshake failed or token missing''), sent1)
                       else
                         (let headers = headers @ [(''Authorization'', ''Bearer '' @ format_value lib token)]
                          in case send up (mk_request session GET
                                             (profile_url lib base_url prefix mac) headers 10) sent1 of
                               (Inl e, sent2) \<Rightarrow> (Inl e, sent2)
                             | (Inr resp, sent2) \<Rightarrow>
                                 if \<not> resp_ok resp
                                 then (Inl (RuntimeError ''Profile validation failed''), sent2)
                                 else if \<not> str_contains ''js'' (resp_text resp)
                                 then (Inl (RuntimeError ''Profile validation failed''), sent2)
                                 else
                                   (case send up (mk_request session GET
                                                    (all_url base_url prefix) headers 15) sent2 of
                                      (Inl e, sent3) \<Rightarrow> (Inl e, sent3)
                                    | (Inr resp, sent3) \<Rightarrow>
                                        (case catalog_channels resp of
                                           Inl e \<Rightarrow> (Inl e, sent3)
                                         | Inr channels \<Rightarrow>
                                             (Inr (session, headers, channels), sent3)))))))"

section \<open>\<open>ensure_cache\<close>\<close>

record config =
  PORTAL_BASE_URL :: string
  PORTAL_MAC :: string
  PORTAL_TYPE :: string
  CACHE_TTL :: int

record cache =
  c_session :: "session option"
  c_headers :: "(string \<times> string) list option"
  c_channels :: json
  c_portal_name :: "string option"
  c_expires :: real

definition initial_cache :: cache where
  \<comment> \<open>the module-level \<open>_cache\<close>\<close>
  "initial_cache =
     \<lparr>c_session = None, c_headers = None, c_channels = JNull, c_portal_name = None, c_expires = 0\<rparr>"

text \<open>
  \<open>time.time()\<close> is read once for the check and once more for the new expiry; the two
  readings are the arguments \<open>now\<close> and \<open>later\<close>. The new expiry is the float sum
  \<open>time.time() + CACHE_TTL\<close>; it is computed while the argument of \<open>_cache.update\<close> is
  built, so an \<open>OverflowError\<close> there leaves the cache as it was, after the requests of
  the acquisition have been sent. The lock makes the body run as one step, which is what
  the function below is.
\<close>

definition ensure_cache ::
  "pylib \<Rightarrow> config \<Rightarrow> upstream \<Rightarrow> real \<Rightarrow> real \<Rightarrow> cache \<times> request list
     \<Rightarrow> (exn + unit) \<times> cache \<times> request list" where
  "ensure_cache lib cfg up now later st =
     (case st of (c, sent) \<Rightarrow>
        if truthy (c_channels c) \<and> now < c_expires c then (Inr (), c, sent)
        else
          (case normalize_url_and_name lib (PORTAL_BASE_URL cfg) of
             Inl e \<Rightarrow> (Inl e, c, sent)
           | Inr (base, pname) \<Rightarrow>
               (case init_portal_session_and_channels lib up base (PORTAL_MAC cfg) (PORTAL_TYPE cfg) sent of
                  (Inl e, sent') \<Rightarrow> (Inl e, c, sent')
                | (Inr (session, headers, channels), sent') \<Rightarrow>
                    (case float_add_int lib later (CACHE_TTL cfg) of
                       None \<Rightarrow> (Inl OverflowError, c, sent')
                     | Some expires \<Rightarrow>
                         (Inr (),
                          \<lparr>c_session = Some session, c_headers = Some headers,
                           c_channels = channels, c_portal_name = Some pname,
                           c_expires = expires\<rparr>,
                          sent')))))"

section \<open>The \<open>getlink\<close> route\<close>

datatype http_reply =
    InitFailed exn
  | ErrorJson string nat
  | Redirect string
  | Unhandled exn

function str_nat :: "nat \<Rightarrow> string" where
  \<comment> \<open>\<open>str(n)\<close> for a non-negative integer\<close>
  "str_nat n = (if n < 10 then [char_of (48 + n)] else str_nat (n div 10) @ [char_of (48 + n mod 10)])"
  by pat_completeness auto
termination
  by (relation "measure (\<lambda>n. n)") auto

definition id_matches :: "json \<Rightarrow> nat \<Rightarrow> bool" where
  \<comment> \<open>\<open>str(v) == str(ch_id)\<close> for the non-negative integer of the route: only an equal
      integer or its decimal string prints as the digits of \<open>ch_id\<close>\<close>
  "id_matches v n = (case v of JInt i \<Rightarrow> i = int n | JStr s \<Rightarrow> s = str_nat n | _ \<Rightarrow> False)"

fun find_in_list :: "json list \<Rightarrow> nat \<Rightarrow> exn + json option" where
  "find_in_list [] n = Inr None"
| "find_in_list (c # cs) n =
     (case dict_get c ''id'' JNull of
        Inl e \<Rightarrow> Inl e
      | Inr v \<Rightarrow> if id_matches v n then Inr (Some c) else find_in_list cs n)"

definition find_channel :: "json \<Rightarrow> nat \<Rightarrow> exn + json option" where
  \<comment> \<open>\<open>next((c for c in channels if str(c.get("id")) == str(ch_id)), None)\<close>; iterating
      a string or a dict yields strings, which have no \<open>get\<close>\<close>
  "find_channel channels n =
     (case channels of
        JArr cs \<Rightarrow> find_in_list cs n
      | JObj kv \<Rightarrow> if kv = [] then Inr None else Inl AttributeError
      | JStr s \<Rightarrow> if s = [] then Inr None else Inl AttributeError
      | _ \<Rightarrow> Inl TypeError)"

definition getlink ::
  "pylib \<Rightarrow> config \<Rightarrow> upstream \<Rightarrow> real \<Rightarrow> real \<Rightarrow> nat \<Rightarrow> cache \<times> request list
     \<Rightarrow> http_reply \<times> cache \<times> request list" where
  "getlink lib cfg up now later ch_id st =
     (case ensure_cache lib cfg up now later st of
        (Inl e, c, sent) \<Rightarrow> (InitFailed e, c, sent)
      | (Inr ok, c, sent) \<Rightarrow>
          (case find_channel (c_channels c) ch_id of
             Inl e \<Rightarrow> (Unhandled e, c, sent)
           | Inr None \<Rightarrow> (ErrorJson ''not_found'' 404, c, sent)
           | Inr (Some ch) \<Rightarrow>
               if \<not> truthy ch then (ErrorJson ''not_found'' 404, c, sent)
               else
                 (case dict_get ch ''cmd'' (JStr []) of
                    Inl e \<Rightarrow> (Unhandled e, c, sent)
                  | Inr (JStr raw) \<Rightarrow>
                      (let cmd = str_strip raw
                       in if cmd = [] then (ErrorJson ''no_cmd'' 400, c, sent)
                          else
                            (case (if str_contains ''ffmpeg'' cmd
                                   then (Some (str_strip (str_replace ''ffmpeg '' [] cmd)), sent)
                                   else create_link up (str_rstrip_char CHR ''/'' (PORTAL_BASE_URL cfg))
                                          cmd (c_session c)
                                          (case c_headers c of None \<Rightarrow> [] | Some h \<Rightarrow> h)
                                          (PORTAL_TYPE cfg) 3 sent) of
                               (None, sent') \<Rightarrow> (ErrorJson ''failed_to_create_link'' 502, c, sent')
                             | (Some real_url, sent') \<Rightarrow>
                                 if real_url = [] then (ErrorJson ''failed_to_create_link'' 502, c, sent')
                                 else (Redirect real_url, c, sent')))
                  | Inr other \<Rightarrow> (Unhandled AttributeError, c, sent))))"

section \<open>Notions used in the statements\<close>

text \<open>
  A reply that carries a usable command, in the words of the specification: the request got
  through, the status is 200, and the JSON body is an object whose \<open>js\<close> is an object whose
  \<open>cmd\<close> is a non-empty string.
\<close>

definition usable_cmd :: "response option \<Rightarrow> string option" where
  "usable_cmd got =
     (case got of
        None \<Rightarrow> None
      | Some r \<Rightarrow>
          if status_code r = 200 then
            (case resp_json r of
               Some (JObj kv) \<Rightarrow>
                 (case map_of kv ''js'' of
                    Some (JObj js) \<Rightarrow>
                      (case map_of js ''cmd'' of
                         Some (JStr c) \<Rightarrow> if c = [] then None else Some c
                       | _ \<Rightarrow> None)
                  | _ \<Rightarrow> None)
             | _ \<Rightarrow> None)
          else None)"



subsection \<open>Concrete inputs\<close>

definition stub_lib :: pylib where
  \<comment> \<open>stand-ins for the library parameters, for evaluation at concrete inputs: digests
      that show their input, and a float sum that is exact (as it is for the small
      instants and the TTL of the examples)\<close>
  "stub_lib =
     \<lparr>md5_hex = (\<lambda>s. ''md5:'' @ s), sha256_hex = (\<lambda>s. ''sha256:'' @ s),
      py_str = (\<lambda>v. ''?''), bracketed_host_ok = (\<lambda>h. True), nfkc_ok = (\<lambda>h. True),
      quote_upper = (\<lambda>s. ''?''), float_add_int = (\<lambda>x n. Some (x + real_of_int n))\<rparr>"

definition mac_session :: session where
  "mac_session = \<lparr>sess_cookies = [(''mac'', ''00:1A:79:00:13:DA'')]\<rparr>"


definition scripted :: "response option list \<Rightarrow> upstream" where
  \<comment> \<open>the portal that answers the request number \<open>n\<close> with the entry \<open>n\<close> of a script, and
      does not answer once the script has run out\<close>
  "scripted script sent rq = (if length sent < length script then script ! length sent else None)"

definition json_reply :: "string \<Rightarrow> json \<Rightarrow> response option" where
  \<comment> \<open>a 200 reply with a JSON body: its text and what it decodes to\<close>
  "json_reply body v = Some \<lparr>status_code = 200, resp_text = body, resp_json = Some v\<rparr>"

definition handshake_T1 :: "response option" where
  \<open>handshake_T1 = json_reply ''{"js":{"token":"T1"}}'' (JObj [(''js'', JObj [(''token'', JStr ''T1'')])])\<close>

definition profile_ok :: "response option" where
  \<open>profile_ok = json_reply ''{"js":{}}'' (JObj [(''js'', JObj [])])\<close>

definition news_channel :: json where
  "news_channel =
     JObj [(''id'', JInt 5), (''name'', JStr ''News''), (''logo'', JStr ''n.png''),
           (''cmd'', JStr ''ffrt http://n/play'')]"

definition local_channel :: json where
  "local_channel =
     JObj [(''id'', JInt 7), (''name'', JStr ''Local''), (''logo'', JStr ''l.png''),
           (''cmd'', JStr ''ffmpeg http://x/stream'')]"

definition catalog_two :: "response option" where
  \<open>catalog_two =
     json_reply ''{"js":{"data":[{"id":5,"name":"News","logo":"n.png","cmd":"ffrt http://n/play"},{"id":7,"name":"Local","logo":"l.png","cmd":"ffmpeg http://x/stream"}]}}''
       (JObj [(''js'', JObj [(''data'', JArr [news_channel, local_channel])])])\<close>

definition catalog_empty :: "response option" where
  \<open>catalog_empty = json_reply ''{"js":{"data":[]}}'' (JObj [(''js'', JObj [(''data'', JArr [])])])\<close>

definition sample_cfg :: config where
  "sample_cfg =
     \<lparr>PORTAL_BASE_URL = ''http://portal.example.com/stalker_portal/c/'',
      PORTAL_MAC = ''00:1A:79:00:13:DA'', PORTAL_TYPE = ''1'', CACHE_TTL = 300\<rparr>"

definition sample_headers :: "(string \<times> string) list" where
  \<comment> \<open>the headers of a session of \<open>sample_cfg\<close> whose handshake returned the token \<open>T1\<close>\<close>
  "sample_headers =
     base_headers ''http://portal.example.com'' ''stalker_portal'' @ [(''Authorization'', ''Bearer T1'')]"

definition two_cache :: cache where
  \<comment> \<open>the cache after a refresh of \<open>sample_cfg\<close> at time 0 against a portal that lists two channels\<close>
  "two_cache =
     \<lparr>c_session = Some mac_session, c_headers = Some sample_headers,
      c_channels = JArr [news_channel, local_channel], c_portal_name = Some ''examplecom'',
      c_expires = 300\<rparr>"




subsection \<open>The cache invariant\<close>

text \<open>
  The cache changes only inside \<open>ensure_cache\<close>, which every route calls first. A cache is
  written by the acquisition that ran against the portal \<open>up\<close> from the requests \<open>sent\<close> to
  the requests \<open>sent'\<close> when its five fields are the session, the headers and the channels
  that this run of \<open>init_portal_session_and_channels\<close> returned, the name of the configured
  portal, and the float sum of the clock reading \<open>later\<close> and the TTL.
\<close>

inductive reachable :: "pylib \<Rightarrow> config \<Rightarrow> cache \<Rightarrow> bool" for lib :: pylib and cfg :: config where
  start: "reachable lib cfg initial_cache"
| call: "reachable lib cfg c \<Longrightarrow> ensure_cache lib cfg up now later (c, sent) = (r, c', sent')
           \<Longrightarrow> reachable lib cfg c'"

definition written_by ::
  "pylib \<Rightarrow> config \<Rightarrow> upstream \<Rightarrow> real \<Rightarrow> request list \<Rightarrow> request list \<Rightarrow> cache \<Rightarrow> bool" where
  "written_by lib cfg up later sent sent' c =
     (\<exists>base pname session headers channels expires.
        normalize_url_and_name lib (PORTAL_BASE_URL cfg) = Inr (base, pname)
        \<and> init_portal_session_and_channels lib up base (PORTAL_MAC cfg) (PORTAL_TYPE cfg) sent
            = (Inr (session, headers, channels), sent')
        \<and> float_add_int lib later (CACHE_TTL cfg) = Some expires
        \<and> c = \<lparr>c_session = Some session, c_headers = Some headers, c_channels = channels,
                c_portal_name = Some pname, c_expires = expires\<rparr>)"

definition fresh :: "cache \<Rightarrow> real \<Rightarrow> bool" where
  \<comment> \<open>the test of the fast path\<close>
  "fresh c now = (truthy (c_channels c) \<and> now < c_expires c)"

subsection \<open>The three requests of an acquisition\<close>

definition handshake_request :: "string \<Rightarrow> string \<Rightarrow> string \<Rightarrow> request" where
  "handshake_request base_url mac portal_type =
     \<lparr>req_method = POST,
      req_url = base_url @ ''/'' @ portal_prefix portal_type
                  @ ''/server/load.php?action=handshake&type=stb&token=&JsHttpRequest=1-xml'',
      req_headers = base_headers base_url (portal_prefix portal_type),
      req_cookies = [(''mac'', mac)],
      req_timeout = 10\<rparr>"

definition auth_headers :: "string \<Rightarrow> string \<Rightarrow> string \<Rightarrow> (string \<times> string) list" where
  \<comment> \<open>the fixed headers followed by the bearer token\<close>
  "auth_headers base_url portal_type tok =
     base_headers base_url (portal_prefix portal_type) @ [(''Authorization'', ''Bearer '' @ tok)]"

definition profile_request :: "pylib \<Rightarrow> string \<Rightarrow> string \<Rightarrow> string \<Rightarrow> string \<Rightarrow> request" where
  "profile_request lib base_url mac portal_type tok =
     \<lparr>req_method = GET,
      req_url = profile_url lib base_url (portal_prefix portal_type) mac,
      req_headers = auth_headers base_url portal_type tok,
      req_cookies = [(''mac'', mac)],
      req_timeout = 10\<rparr>"

definition channels_request :: "string \<Rightarrow> string \<Rightarrow> string \<Rightarrow> string \<Rightarrow> request" where
  "channels_request base_url mac portal_type tok =
     \<lparr>req_method = GET,
      req_url = all_url base_url (portal_prefix portal_type),
      req_headers = auth_headers base_url portal_type tok,
      req_cookies = [(''mac'', mac)],
      req_timeout = 15\<rparr>"

definition empty_script :: "response option list" where
  \<comment> \<open>two acquisitions, each ending in an empty catalogue\<close>
  "empty_script = [handshake_T1, profile_ok, catalog_empty, handshake_T1, profile_ok, catalog_empty]"

definition two_script :: "response option list" where
  "two_script = [handshake_T1, profile_ok, catalog_two]"

definition sample_sent :: "request list" where
  \<comment> \<open>what a successful acquisition for \<open>sample_cfg\<close> sends\<close>
  "sample_sent =
     [handshake_request ''http://portal.example.com'' ''00:1A:79:00:13:DA'' ''1'',
      profile_request stub_lib ''http://portal.example.com'' ''00:1A:79:00:13:DA'' ''1'' ''T1'',
      channels_request ''http://portal.example.com'' ''00:1A:79:00:13:DA'' ''1'' ''T1'']"


definition catalog_js_list :: "response option" where
  \<comment> \<open>a 200 reply whose \<open>js\<close> is a list\<close>
  \<open>catalog_js_list = json_reply ''{"js":[]}'' (JObj [(''js'', JArr [])])\<close>

definition html_page :: "response option" where
  \<comment> \<open>a 200 reply that is a web page and not JSON\<close>
  \<open>html_page =
     Some \<lparr>status_code = 200, resp_text = ''<html><script src="app.js"></script></html>'',
           resp_json = None\<rparr>\<close>

definition error_with_js :: "response option" where
  \<comment> \<open>a 500 reply whose JSON body has the key \<open>js\<close>\<close>
  \<open>error_with_js =
     Some \<lparr>status_code = 500, resp_text = ''{"js":{}}'', resp_json = Some (JObj [(''js'', JObj [])])\<rparr>\<close>

definition has_js_key :: "response option \<Rightarrow> bool" where
  \<comment> \<open>the reply's body is a JSON object with the key \<open>js\<close>\<close>
  "has_js_key got =
     (case got of
        Some r \<Rightarrow>
          (case resp_json r of
             Some (JObj kv) \<Rightarrow> map_of kv ''js'' \<noteq> None
           | _ \<Rightarrow> False)
      | None \<Rightarrow> False)"

subsection \<open>What \<open>normalize_url_and_name\<close> computes\<close>

definition without_tab_cr_lf :: "string \<Rightarrow> string" where
  "without_tab_cr_lf r =
     filter (\<lambda>c. c \<notin> set [CHR 0x09, CHR 0x0D, CHR 0x0A]) r"

definition host_part :: "string \<Rightarrow> string" where
  \<comment> \<open>the network location of a URL, given what follows its \<open>scheme://\<close>\<close>
  "host_part r = takeWhile netloc_char (without_tab_cr_lf r)"

definition netloc_accepted :: "pylib \<Rightarrow> string \<Rightarrow> bool" where
  \<comment> \<open>\<open>urlsplit\<close> accepts a network location: no square brackets at all, or both kinds
      and a bracketed host that passes the library's validation; and, when it is not empty
      and not ASCII, it passes the NFKC check\<close>
  "netloc_accepted lib netloc =
     ((if CHR ''['' \<in> set netloc
       then CHR '']'' \<in> set netloc \<and> bracketed_host_ok lib netloc
       else CHR '']'' \<notin> set netloc)
      \<and> (netloc = [] \<or> list_all is_ascii netloc \<or> nfkc_ok lib netloc))"

definition after_scheme :: "string \<Rightarrow> string \<times> string" where
  \<comment> \<open>the scheme the function goes on with, and what follows \<open>scheme://\<close>\<close>
  "after_scheme x =
     (let u = str_strip x
      in if str_startswith ''http://'' u then (''http'', drop 7 u)
         else if str_startswith ''https://'' u then (''https'', drop 8 u)
         else (''http'', u))"

definition name_of :: "string \<Rightarrow> string" where
  \<comment> \<open>the short name of a network location\<close>
  "name_of netloc =
     str_lower (if CHR ''.'' \<in> set netloc
                then concat (last_two (str_split CHR ''.'' netloc))
                else str_replace ''.'' [] netloc)"

definition has_host :: "string \<Rightarrow> bool" where
  \<comment> \<open>a normalised base URL with a network location: it has the \<open>//\<close> after its scheme\<close>
  "has_host b = (str_startswith ''http://'' b \<or> str_startswith ''https://'' b)"

definition normalized :: "pylib \<Rightarrow> string \<Rightarrow> string \<Rightarrow> exn + string \<times> string" where
  \<comment> \<open>the outcome for a URL \<open>sch://r\<close>, in closed form\<close>
  "normalized lib sch r =
     (if \<not> netloc_accepted lib (host_part r) then Inl ValueError
      else if host_part r = [] then Inr (sch @ '':'', [])
      else Inr (sch @ ''://'' @ host_part r, name_of (host_part r)))"

section \<open>Properties\<close>

subsection \<open>The retry loop of \<open>create_link\<close>\<close>

lemma link_attempt_returns:
  "(link_attempt (case got of None \<Rightarrow> Inl RequestException | Some r \<Rightarrow> Inr r) = Inr (Some u))
     = (\<exists>c. usable_cmd got = Some c \<and> u = str_strip (str_replace ''ffrt '' [] c))"
  by (auto simp: link_attempt_def usable_cmd_def
      split: option.splits sum.splits json.splits if_splits)

lemma link_loop_step:
  "link_loop up (Some s) u h (Suc n) sent =
     (case usable_cmd (up sent (mk_request s GET u h 8)) of
        Some c \<Rightarrow> (Some (str_strip (str_replace ''ffrt '' [] c)), sent @ [mk_request s GET u h 8])
      | None \<Rightarrow> link_loop up (Some s) u h n (sent @ [mk_request s GET u h 8]))"
proof (cases "usable_cmd (up sent (mk_request s GET u h 8))")
  case None
  then have "\<forall>r. link_attempt (case up sent (mk_request s GET u h 8) of
      None \<Rightarrow> Inl RequestException | Some r \<Rightarrow> Inr r) \<noteq> Inr (Some r)"
    by (simp add: link_attempt_returns)
  with None show ?thesis
    by (simp add: send_def split: sum.splits option.splits)
next
  case (Some c)
  then have "link_attempt (case up sent (mk_request s GET u h 8) of
      None \<Rightarrow> Inl RequestException | Some r \<Rightarrow> Inr r) = Inr (Some (str_strip (str_replace ''ffrt '' [] c)))"
    by (simp add: link_attempt_returns)
  with Some show ?thesis
    by (simp add: send_def)
qed




lemma link_loop_bound:
  "\<exists>m\<le>n. snd (link_loop up (Some s) u h n sent) = sent @ replicate m (mk_request s GET u h 8)"
proof (induction n arbitrary: sent)
  case 0
  then show ?case by simp
next
  case (Suc n)
  let ?rq = "mk_request s GET u h 8"
  show ?case
  proof (cases "usable_cmd (up sent ?rq)")
    case None
    from Suc.IH [of "sent @ [?rq]"] obtain m where
      m: "m \<le> n" "snd (link_loop up (Some s) u h n (sent @ [?rq])) = (sent @ [?rq]) @ replicate m ?rq"
      by blast
    then have "Suc m \<le> Suc n \<and>
        snd (link_loop up (Some s) u h (Suc n) sent) = sent @ replicate (Suc m) ?rq"
      using None by (simp add: link_loop_step del: link_loop.simps)
    then show ?thesis by blast
  next
    case (Some c)
    then have "Suc 0 \<le> Suc n \<and>
        snd (link_loop up (Some s) u h (Suc n) sent) = sent @ replicate (Suc 0) ?rq"
      by (simp add: link_loop_step del: link_loop.simps)
    then show ?thesis by blast
  qed
qed





subsection \<open>Unfolding one acquisition\<close>

lemma init_handshake_sent:
  "\<exists>rest. snd (init_portal_session_and_channels lib up base mac pt sent)
            = sent @ handshake_request base mac pt # rest"
  by (auto simp: init_portal_session_and_channels_def Let_def send_def mk_request_def
      handshake_request_def handshake_url_def
      split: option.splits sum.splits prod.splits)

lemma init_no_reply:
  "up sent (handshake_request base mac pt) = None \<Longrightarrow>
     init_portal_session_and_channels lib up base mac pt sent
       = (Inl RequestException, sent @ [handshake_request base mac pt])"
  by (simp add: init_portal_session_and_channels_def Let_def send_def mk_request_def
      handshake_request_def handshake_url_def)


lemma init_after_token:
  assumes "up sent (handshake_request base mac pt) = Some r1"
    and "handshake_js r1 = Inr js"
    and "dict_get js ''token'' JNull = Inr tok"
    and "truthy tok"
  shows "init_portal_session_and_channels lib up base mac pt sent =
     (let hr = handshake_request base mac pt;
          pr = profile_request lib base mac pt (format_value lib tok);
          cr = channels_request base mac pt (format_value lib tok)
      in case up (sent @ [hr]) pr of
           None \<Rightarrow> (Inl RequestException, sent @ [hr, pr])
         | Some r2 \<Rightarrow>
             if \<not> resp_ok r2 then (Inl (RuntimeError ''Profile validation failed''), sent @ [hr, pr])
             else if \<not> str_contains ''js'' (resp_text r2)
             then (Inl (RuntimeError ''Profile validation failed''), sent @ [hr, pr])
             else
               (case up (sent @ [hr, pr]) cr of
                  None \<Rightarrow> (Inl RequestException, sent @ [hr, pr, cr])
                | Some r3 \<Rightarrow>
                    (case catalog_channels r3 of
                       Inl e \<Rightarrow> (Inl e, sent @ [hr, pr, cr])
                     | Inr channels \<Rightarrow>
                         (Inr (\<lparr>sess_cookies = [(''mac'', mac)]\<rparr>,
                               auth_headers base pt (format_value lib tok), channels),
                          sent @ [hr, pr, cr]))))"
  using assms
  by (simp add: init_portal_session_and_channels_def Let_def send_def mk_request_def
      handshake_request_def handshake_url_def profile_request_def channels_request_def
      auth_headers_def
      split: option.splits sum.splits)

lemma handshake_js_200:
  "handshake_js \<lparr>status_code = 200, resp_text = b, resp_json = Some (JObj kv)\<rparr>
     = Inr (case map_of kv ''js'' of None \<Rightarrow> JObj [] | Some v \<Rightarrow> v)"
  by (simp add: handshake_js_def resp_ok_def)

lemma catalog_channels_200:
  "catalog_channels \<lparr>status_code = 200, resp_text = b,
      resp_json = Some (JObj [(''js'', JObj [(''data'', chans)])])\<rparr> = Inr chans"
  by (simp add: catalog_channels_def resp_ok_def)

lemma init_scripted:
  assumes len: "length sent + 2 < length script"
    and h: "script ! length sent = handshake_T1"
    and p: "script ! Suc (length sent) = profile_ok"
    and c: "script ! Suc (Suc (length sent))
              = json_reply body (JObj [(''js'', JObj [(''data'', chans)])])"
  shows "init_portal_session_and_channels lib (scripted script) base mac pt sent
     = (Inr (\<lparr>sess_cookies = [(''mac'', mac)]\<rparr>, auth_headers base pt ''T1'', chans),
        sent @ [handshake_request base mac pt, profile_request lib base mac pt ''T1'',
                channels_request base mac pt ''T1''])"
proof -
  let ?r1 = "\<lparr>status_code = 200, resp_text = ''{\"js\":{\"token\":\"T1\"}}'',
               resp_json = Some (JObj [(''js'', JObj [(''token'', JStr ''T1'')])])\<rparr>"
  have a: "scripted script sent (handshake_request base mac pt) = Some ?r1"
    using len h by (simp add: scripted_def handshake_T1_def json_reply_def)
  have b: "handshake_js ?r1 = Inr (JObj [(''token'', JStr ''T1'')])"
    by (simp add: handshake_js_200)
  have d: "dict_get (JObj [(''token'', JStr ''T1'')]) ''token'' JNull = Inr (JStr ''T1'')"
    by simp
  have e: "truthy (JStr ''T1'')" by simp
  have js: "str_contains ''js'' ''{\"js\":{}}''"
    by (simp add: str_startswith_def)
  show ?thesis
    using len p c js
    by (simp add: init_after_token [where up = "scripted script" and sent = sent, OF a b d e] Let_def scripted_def format_value_def
        profile_ok_def json_reply_def resp_ok_def catalog_channels_200)
qed

subsection \<open>The outcomes of \<open>ensure_cache\<close>\<close>

lemma ensure_cache_hit:
  "fresh c now \<Longrightarrow> ensure_cache lib cfg up now later (c, sent) = (Inr (), c, sent)"
  by (simp add: ensure_cache_def fresh_def)

lemma ensure_cache_refreshed:
  "\<not> fresh c now \<Longrightarrow>
   normalize_url_and_name lib (PORTAL_BASE_URL cfg) = Inr (base, pname) \<Longrightarrow>
   init_portal_session_and_channels lib up base (PORTAL_MAC cfg) (PORTAL_TYPE cfg) sent
     = (Inr (session, headers, channels), sent') \<Longrightarrow>
   float_add_int lib later (CACHE_TTL cfg) = Some expires \<Longrightarrow>
   ensure_cache lib cfg up now later (c, sent)
     = (Inr (),
        \<lparr>c_session = Some session, c_headers = Some headers, c_channels = channels,
         c_portal_name = Some pname, c_expires = expires\<rparr>,
        sent')"
  by (auto simp: ensure_cache_def fresh_def)

lemma ensure_cache_init_failed:
  "\<not> fresh c now \<Longrightarrow>
   normalize_url_and_name lib (PORTAL_BASE_URL cfg) = Inr (base, pname) \<Longrightarrow>
   init_portal_session_and_channels lib up base (PORTAL_MAC cfg) (PORTAL_TYPE cfg) sent
     = (Inl e, sent') \<Longrightarrow>
   ensure_cache lib cfg up now later (c, sent) = (Inl e, c, sent')"
  by (auto simp: ensure_cache_def fresh_def)

lemma ensure_cache_outcomes:
  assumes "ensure_cache lib cfg up now later (c, sent) = (r, c', sent')"
  shows "c' = c \<or> (r = Inr () \<and> \<not> fresh c now \<and> written_by lib cfg up later sent sent' c')"
  using assms
  by (auto simp: ensure_cache_def fresh_def written_by_def
      split: if_splits sum.splits prod.splits option.splits)


lemma ensure_cache_success_stale:
  "\<not> fresh c now \<Longrightarrow> ensure_cache lib cfg up now later (c, sent) = (Inr (), c', sent') \<Longrightarrow>
     written_by lib cfg up later sent sent' c'"
  by (auto simp: ensure_cache_def fresh_def written_by_def
      split: if_splits sum.splits prod.splits option.splits)

lemma written_by_fields:
  "written_by lib cfg up later sent sent' c \<Longrightarrow>
     (\<exists>s h. c_session c = Some s \<and> c_headers c = Some h)
     \<and> float_add_int lib later (CACHE_TTL cfg) = Some (c_expires c)"
  by (auto simp: written_by_def)

lemma reachable_written:
  "reachable lib cfg c \<Longrightarrow>
     c = initial_cache
     \<or> (\<exists>c0 up0 now0 later0 sent0 sent1.
           reachable lib cfg c0 \<and> \<not> fresh c0 now0
           \<and> ensure_cache lib cfg up0 now0 later0 (c0, sent0) = (Inr (), c, sent1)
           \<and> written_by lib cfg up0 later0 sent0 sent1 c)"
proof (induction rule: reachable.induct)
  case start
  then show ?case by simp
next
  case (call c up now later sent r c' sent')
  from ensure_cache_outcomes [OF call.hyps(2)] show ?case
  proof
    assume "c' = c"
    with call.IH show ?thesis by simp
  next
    assume w: "r = Inr () \<and> \<not> fresh c now \<and> written_by lib cfg up later sent sent' c'"
    with call.hyps(2) have "ensure_cache lib cfg up now later (c, sent) = (Inr (), c', sent')"
      by simp
    with w call.hyps(1) show ?thesis by blast
  qed
qed

subsection \<open>The cache: fast path and failure\<close>

lemma normalize_sample:
  "normalize_url_and_name stub_lib (PORTAL_BASE_URL sample_cfg)
     = Inr (''http://portal.example.com'', ''examplecom'')"
  by code_simp

lemma sample_expiry:
  "float_add_int stub_lib t (CACHE_TTL sample_cfg) = Some (t + 300)"
  by (simp add: stub_lib_def sample_cfg_def)

lemma sample_refresh:
  "ensure_cache stub_lib sample_cfg (scripted two_script) 0 0 (initial_cache, [])
     = (Inr (), two_cache, sample_sent)"
proof -
  have i: "init_portal_session_and_channels stub_lib (scripted two_script)
      ''http://portal.example.com'' (PORTAL_MAC sample_cfg) (PORTAL_TYPE sample_cfg) []
    = (Inr (mac_session, sample_headers, JArr [news_channel, local_channel]), sample_sent)"
    by (simp add: init_scripted [where body = "''{\"js\":{\"data\":[{\"id\":5,\"name\":\"News\",\"logo\":\"n.png\",\"cmd\":\"ffrt http://n/play\"},{\"id\":7,\"name\":\"Local\",\"logo\":\"l.png\",\"cmd\":\"ffmpeg http://x/stream\"}]}}''"
          and chans = "JArr [news_channel, local_channel]"]
        two_script_def catalog_two_def sample_cfg_def mac_session_def sample_headers_def
        auth_headers_def portal_prefix_def sample_sent_def)
  have f: "\<not> fresh initial_cache 0"
    by (simp add: fresh_def initial_cache_def)
  show ?thesis
    using ensure_cache_refreshed [OF f normalize_sample i sample_expiry [of 0]]
    by (simp add: two_cache_def)
qed

text \<open>
  C1 (as amended). A call of \<open>ensure_cache\<close> that refreshes the cache with success stores as
  expiry the float sum of its second clock reading and the TTL. Every call made while the
  clock reads less than that stored expiry returns with the cache as it is and sends no
  request, whatever the portal would answer, provided the cached channel catalogue is
  truthy, that is, not empty.
\<close>

theorem ensure_cache_fast_path:
  assumes "\<not> fresh c0 t0"
    and "ensure_cache lib cfg up t0 t1 (c0, sent0) = (Inr (), c, sent)"
    and "truthy (c_channels c)"
    and "now < c_expires c"
  shows "float_add_int lib t1 (CACHE_TTL cfg) = Some (c_expires c)
     \<and> ensure_cache lib cfg up' now later (c, sent) = (Inr (), c, sent)"
proof -
  have "written_by lib cfg up t1 sent0 sent c"
    using assms(1,2) by (rule ensure_cache_success_stale)
  then have "float_add_int lib t1 (CACHE_TTL cfg) = Some (c_expires c)"
    using written_by_fields by blast
  moreover from assms(3,4) have "fresh c now"
    by (simp add: fresh_def)
  then have "ensure_cache lib cfg up' now later (c, sent) = (Inr (), c, sent)"
    by (rule ensure_cache_hit)
  ultimately show ?thesis by simp
qed

theorem ensure_cache_fast_path_witness:
  "float_add_int stub_lib 0 (CACHE_TTL sample_cfg) = Some (c_expires two_cache)
   \<and> ensure_cache stub_lib sample_cfg (scripted []) 299 299 (two_cache, sample_sent)
       = (Inr (), two_cache, sample_sent)"
proof -
  have a: "\<not> fresh initial_cache 0"
    by (simp add: fresh_def initial_cache_def)
  have b: "truthy (c_channels two_cache)"
    by (simp add: two_cache_def)
  have c: "(299::real) < c_expires two_cache"
    by (simp add: two_cache_def)
  show ?thesis
    by (rule ensure_cache_fast_path [OF a sample_refresh b c])
qed

text \<open>
  C1 as stated fails for an empty catalogue: the portal below answers the handshake and the
  profile request and returns an empty channel list. The refresh at time 0 succeeds and
  caches the empty list with expiry 300; the call at time 1 runs the three requests again.
\<close>

theorem ensure_cache_empty_catalog_refetches:
  "fst (ensure_cache stub_lib sample_cfg (scripted empty_script) 0 0 (initial_cache, [])) = Inr ()
   \<and> c_channels (fst (snd (ensure_cache stub_lib sample_cfg (scripted empty_script) 0 0
                              (initial_cache, [])))) = JArr []
   \<and> 1 < c_expires (fst (snd (ensure_cache stub_lib sample_cfg (scripted empty_script) 0 0
                                 (initial_cache, []))))
   \<and> snd (snd (ensure_cache stub_lib sample_cfg (scripted empty_script) 0 0 (initial_cache, [])))
       = sample_sent
   \<and> snd (snd (ensure_cache stub_lib sample_cfg (scripted empty_script) 1 1
                  (snd (ensure_cache stub_lib sample_cfg (scripted empty_script) 0 0
                          (initial_cache, [])))))
       = sample_sent @ sample_sent"
proof -
  let ?c = "\<lparr>c_session = Some mac_session, c_headers = Some sample_headers,
             c_channels = JArr [], c_portal_name = Some ''examplecom'', c_expires = 300\<rparr>"
  have i0: "init_portal_session_and_channels stub_lib (scripted empty_script)
      ''http://portal.example.com'' (PORTAL_MAC sample_cfg) (PORTAL_TYPE sample_cfg) []
    = (Inr (mac_session, sample_headers, JArr []), sample_sent)"
    by (simp add: init_scripted [where body = "''{\"js\":{\"data\":[]}}''" and chans = "JArr []"]
        empty_script_def catalog_empty_def sample_cfg_def mac_session_def sample_headers_def
        auth_headers_def portal_prefix_def sample_sent_def)
  have i1: "init_portal_session_and_channels stub_lib (scripted empty_script)
      ''http://portal.example.com'' (PORTAL_MAC sample_cfg) (PORTAL_TYPE sample_cfg) sample_sent
    = (Inr (mac_session, sample_headers, JArr []), sample_sent @ sample_sent)"
    by (simp add: init_scripted [where body = "''{\"js\":{\"data\":[]}}''" and chans = "JArr []"]
        empty_script_def catalog_empty_def sample_cfg_def mac_session_def sample_headers_def
        auth_headers_def portal_prefix_def sample_sent_def)
  have f0: "\<not> fresh initial_cache 0"
    by (simp add: fresh_def initial_cache_def)
  have f1: "\<not> fresh ?c 1"
    by (simp add: fresh_def)
  have first: "ensure_cache stub_lib sample_cfg (scripted empty_script) 0 0 (initial_cache, [])
      = (Inr (), ?c, sample_sent)"
    using ensure_cache_refreshed [OF f0 normalize_sample i0 sample_expiry [of 0]]
    by simp
  have second: "ensure_cache stub_lib sample_cfg (scripted empty_script) 1 1 (?c, sample_sent)
      = (Inr (), ?c\<lparr>c_expires := 301\<rparr>, sample_sent @ sample_sent)"
    using ensure_cache_refreshed [OF f1 normalize_sample i1 sample_expiry [of 1]]
    by simp
  show ?thesis
    by (simp add: first second)
qed



subsection \<open>The steps of the acquisition\<close>

lemma init_scripted_handshake:
  assumes len: "length sent < length script"
    and h: "script ! length sent = handshake_T1"
  shows "init_portal_session_and_channels lib (scripted script) base mac pt sent =
     (let hr = handshake_request base mac pt;
          pr = profile_request lib base mac pt ''T1'';
          cr = channels_request base mac pt ''T1''
      in case scripted script (sent @ [hr]) pr of
           None \<Rightarrow> (Inl RequestException, sent @ [hr, pr])
         | Some r2 \<Rightarrow>
             if \<not> resp_ok r2 then (Inl (RuntimeError ''Profile validation failed''), sent @ [hr, pr])
             else if \<not> str_contains ''js'' (resp_text r2)
             then (Inl (RuntimeError ''Profile validation failed''), sent @ [hr, pr])
             else
               (case scripted script (sent @ [hr, pr]) cr of
                  None \<Rightarrow> (Inl RequestException, sent @ [hr, pr, cr])
                | Some r3 \<Rightarrow>
                    (case catalog_channels r3 of
                       Inl e \<Rightarrow> (Inl e, sent @ [hr, pr, cr])
                     | Inr channels \<Rightarrow>
                         (Inr (\<lparr>sess_cookies = [(''mac'', mac)]\<rparr>,
                               auth_headers base pt ''T1'', channels),
                          sent @ [hr, pr, cr]))))"
proof -
  let ?r1 = "\<lparr>status_code = 200, resp_text = ''{\"js\":{\"token\":\"T1\"}}'',
               resp_json = Some (JObj [(''js'', JObj [(''token'', JStr ''T1'')])])\<rparr>"
  have a: "scripted script sent (handshake_request base mac pt) = Some ?r1"
    using len h by (simp add: scripted_def handshake_T1_def json_reply_def)
  have b: "handshake_js ?r1 = Inr (JObj [(''token'', JStr ''T1'')])"
    by (simp add: handshake_js_200)
  have d: "dict_get (JObj [(''token'', JStr ''T1'')]) ''token'' JNull = Inr (JStr ''T1'')"
    by simp
  have e: "truthy (JStr ''T1'')" by simp
  show ?thesis
    by (simp add: init_after_token [where up = "scripted script" and sent = sent, OF a b d e]
        format_value_def Let_def split: option.splits sum.splits)
qed

text \<open>
  C4 (the code departs from it). The portal answers the handshake and the profile request;
  its catalogue reply has status 200 and the body \<open>{"js":[]}\<close>, or is a web page. The
  acquisition ends in an \<open>AttributeError\<close> in the first case and in a \<open>ValueError\<close> in the
  second, and \<open>ensure_cache\<close> passes the error on.
\<close>

theorem catalog_reply_can_fail_refresh:
  "init_portal_session_and_channels stub_lib (scripted [handshake_T1, profile_ok, catalog_js_list])
       ''http://portal.example.com'' ''00:1A:79:00:13:DA'' ''1'' []
     = (Inl AttributeError, sample_sent)
   \<and> init_portal_session_and_channels stub_lib (scripted [handshake_T1, profile_ok, html_page])
       ''http://portal.example.com'' ''00:1A:79:00:13:DA'' ''1'' []
     = (Inl ValueError, sample_sent)
   \<and> ensure_cache stub_lib sample_cfg (scripted [handshake_T1, profile_ok, catalog_js_list]) 0 0
       (initial_cache, [])
     = (Inl AttributeError, initial_cache, sample_sent)"
proof -
  have js: "str_contains ''js'' ''{\"js\":{}}''"
    by (simp add: str_startswith_def)
  have a: "init_portal_session_and_channels stub_lib (scripted [handshake_T1, profile_ok, catalog_js_list])
       ''http://portal.example.com'' ''00:1A:79:00:13:DA'' ''1'' []
     = (Inl AttributeError, sample_sent)"
    using js
    by (simp add: init_scripted_handshake Let_def scripted_def profile_ok_def json_reply_def
        resp_ok_def catalog_js_list_def catalog_channels_def sample_sent_def)
  have b: "init_portal_session_and_channels stub_lib (scripted [handshake_T1, profile_ok, html_page])
       ''http://portal.example.com'' ''00:1A:79:00:13:DA'' ''1'' []
     = (Inl ValueError, sample_sent)"
    using js
    by (simp add: init_scripted_handshake Let_def scripted_def profile_ok_def json_reply_def
        resp_ok_def html_page_def catalog_channels_def sample_sent_def)
  have f: "\<not> fresh initial_cache 0"
    by (simp add: fresh_def initial_cache_def)
  from a have a': "init_portal_session_and_channels stub_lib
       (scripted [handshake_T1, profile_ok, catalog_js_list])
       ''http://portal.example.com'' (PORTAL_MAC sample_cfg) (PORTAL_TYPE sample_cfg) []
     = (Inl AttributeError, sample_sent)"
    by (simp add: sample_cfg_def)
  have c: "ensure_cache stub_lib sample_cfg (scripted [handshake_T1, profile_ok, catalog_js_list]) 0 0
       (initial_cache, [])
     = (Inl AttributeError, initial_cache, sample_sent)"
    by (rule ensure_cache_init_failed [OF f normalize_sample a'])
  from a b c show ?thesis by simp
qed

lemma init_sample:
  "init_portal_session_and_channels stub_lib (scripted two_script)
      ''http://portal.example.com'' ''00:1A:79:00:13:DA'' ''1'' []
    = (Inr (mac_session, sample_headers, JArr [news_channel, local_channel]), sample_sent)"
  by (simp add: init_scripted [where body = "''{\"js\":{\"data\":[{\"id\":5,\"name\":\"News\",\"logo\":\"n.png\",\"cmd\":\"ffrt http://n/play\"},{\"id\":7,\"name\":\"Local\",\"logo\":\"l.png\",\"cmd\":\"ffmpeg http://x/stream\"}]}}''"
        and chans = "JArr [news_channel, local_channel]"]
      two_script_def catalog_two_def mac_session_def sample_headers_def
      auth_headers_def portal_prefix_def sample_sent_def)

lemma catalog_channels_errors:
  "catalog_channels r = Inl e \<Longrightarrow> e = ValueError \<or> e = AttributeError"
  by (auto simp: catalog_channels_def split: if_splits option.splits sum.splits json.splits
      elim: dict_get.elims)

text \<open>
  C5 (as amended). Once the handshake has returned a truthy token, the acquisition fails with
  the error "Profile validation failed" exactly when the profile request is answered by a
  reply that is falsy (a 4xx or 5xx status) or whose text does not contain the two characters
  \<open>js\<close>. Any other reply is looked at no further: the catalogue request is sent and the
  outcome is that of the catalogue step.
\<close>

theorem profile_validation_rule:
  assumes "up sent (handshake_request base mac pt) = Some r1"
    and "handshake_js r1 = Inr js"
    and "dict_get js ''token'' JNull = Inr tok"
    and "truthy tok"
  shows
    "((fst (init_portal_session_and_channels lib up base mac pt sent)
         = Inl (RuntimeError ''Profile validation failed''))
       = (\<exists>r2. up (sent @ [handshake_request base mac pt])
                  (profile_request lib base mac pt (format_value lib tok)) = Some r2
               \<and> \<not> (resp_ok r2 \<and> str_contains ''js'' (resp_text r2))))
     \<and> (\<forall>r2. up (sent @ [handshake_request base mac pt])
                 (profile_request lib base mac pt (format_value lib tok)) = Some r2
              \<and> resp_ok r2 \<and> str_contains ''js'' (resp_text r2) \<longrightarrow>
           init_portal_session_and_channels lib up base mac pt sent
             = (case up (sent @ [handshake_request base mac pt,
                                profile_request lib base mac pt (format_value lib tok)])
                       (channels_request base mac pt (format_value lib tok)) of
                  None \<Rightarrow>
                    (Inl RequestException,
                     sent @ [handshake_request base mac pt,
                             profile_request lib base mac pt (format_value lib tok),
                             channels_request base mac pt (format_value lib tok)])
                | Some r3 \<Rightarrow>
                    (case catalog_channels r3 of
                       Inl e \<Rightarrow>
                         (Inl e,
                          sent @ [handshake_request base mac pt,
                                  profile_request lib base mac pt (format_value lib tok),
                                  channels_request base mac pt (format_value lib tok)])
                     | Inr channels \<Rightarrow>
                         (Inr (\<lparr>sess_cookies = [(''mac'', mac)]\<rparr>,
                               auth_headers base pt (format_value lib tok), channels),
                          sent @ [handshake_request base mac pt,
                                  profile_request lib base mac pt (format_value lib tok),
                                  channels_request base mac pt (format_value lib tok)]))))"
proof (intro conjI allI impI)
  show "(fst (init_portal_session_and_channels lib up base mac pt sent)
         = Inl (RuntimeError ''Profile validation failed''))
       = (\<exists>r2. up (sent @ [handshake_request base mac pt])
                  (profile_request lib base mac pt (format_value lib tok)) = Some r2
               \<and> \<not> (resp_ok r2 \<and> str_contains ''js'' (resp_text r2)))"
    by (auto simp: init_after_token [where up = up and sent = sent, OF assms] Let_def
        split: option.splits sum.splits dest: catalog_channels_errors)
next
  fix r2
  assume "up (sent @ [handshake_request base mac pt])
                 (profile_request lib base mac pt (format_value lib tok)) = Some r2
              \<and> resp_ok r2 \<and> str_contains ''js'' (resp_text r2)"
  then show "init_portal_session_and_channels lib up base mac pt sent
             = (case up (sent @ [handshake_request base mac pt,
                                profile_request lib base mac pt (format_value lib tok)])
                       (channels_request base mac pt (format_value lib tok)) of
                  None \<Rightarrow>
                    (Inl RequestException,
                     sent @ [handshake_request base mac pt,
                             profile_request lib base mac pt (format_value lib tok),
                             channels_request base mac pt (format_value lib tok)])
                | Some r3 \<Rightarrow>
                    (case catalog_channels r3 of
                       Inl e \<Rightarrow>
                         (Inl e,
                          sent @ [handshake_request base mac pt,
                                  profile_request lib base mac pt (format_value lib tok),
                                  channels_request base mac pt (format_value lib tok)])
                     | Inr channels \<Rightarrow>
                         (Inr (\<lparr>sess_cookies = [(''mac'', mac)]\<rparr>,
                               auth_headers base pt (format_value lib tok), channels),
                          sent @ [handshake_request base mac pt,
                                  profile_request lib base mac pt (format_value lib tok),
                                  channels_request base mac pt (format_value lib tok)])))"
    by (simp add: init_after_token [where up = up and sent = sent, OF assms] Let_def)
qed

theorem profile_validation_rule_witness:
  "fst (init_portal_session_and_channels stub_lib (scripted [handshake_T1, error_with_js])
          ''http://portal.example.com'' ''00:1A:79:00:13:DA'' ''1'' [])
     = Inl (RuntimeError ''Profile validation failed'')"
proof -
  let ?up = "scripted [handshake_T1, error_with_js]"
  let ?hr = "handshake_request ''http://portal.example.com'' ''00:1A:79:00:13:DA'' ''1''"
  let ?r1 = "\<lparr>status_code = 200, resp_text = ''{\"js\":{\"token\":\"T1\"}}'',
               resp_json = Some (JObj [(''js'', JObj [(''token'', JStr ''T1'')])])\<rparr>"
  let ?r2 = "\<lparr>status_code = 500, resp_text = ''{\"js\":{}}'',
               resp_json = Some (JObj [(''js'', JObj [])])\<rparr>"
  have a: "?up [] ?hr = Some ?r1"
    by (simp add: scripted_def handshake_T1_def json_reply_def)
  have b: "handshake_js ?r1 = Inr (JObj [(''token'', JStr ''T1'')])"
    by (simp add: handshake_js_200)
  have d: "dict_get (JObj [(''token'', JStr ''T1'')]) ''token'' JNull = Inr (JStr ''T1'')"
    by simp
  have e: "truthy (JStr ''T1'')" by simp
  have r2: "?up ([] @ [?hr]) (profile_request stub_lib ''http://portal.example.com''
      ''00:1A:79:00:13:DA'' ''1'' (format_value stub_lib (JStr ''T1''))) = Some ?r2"
    by (simp add: scripted_def error_with_js_def)
  have bad: "\<not> (resp_ok ?r2 \<and> str_contains ''js'' (resp_text ?r2))"
    by (simp add: resp_ok_def)
  from profile_validation_rule [where up = ?up and sent = "[]" and lib = stub_lib,
      OF a b d e, THEN conjunct1] r2 bad
  show ?thesis by blast
qed

text \<open>
  C5 as stated fails in both directions. A web page served with status 200 has no JSON key
  \<open>js\<close>, yet its text contains \<open>js\<close> and the acquisition goes on to success; a reply with
  status 500 whose JSON body has the key \<open>js\<close> fails the validation.
\<close>

theorem profile_validation_not_by_key:
  "\<not> has_js_key html_page
   \<and> fst (init_portal_session_and_channels stub_lib (scripted [handshake_T1, html_page, catalog_two])
            ''http://portal.example.com'' ''00:1A:79:00:13:DA'' ''1'' [])
       = Inr (mac_session, sample_headers, JArr [news_channel, local_channel])
   \<and> has_js_key error_with_js
   \<and> fst (init_portal_session_and_channels stub_lib (scripted [handshake_T1, error_with_js, catalog_two])
            ''http://portal.example.com'' ''00:1A:79:00:13:DA'' ''1'' [])
       = Inl (RuntimeError ''Profile validation failed'')"
proof -
  have js: "str_contains ''js'' ''<html><script src=\"app.js\"></script></html>''"
    by (simp add: str_startswith_def)
  have a: "\<not> has_js_key html_page"
    by (simp add: has_js_key_def html_page_def)
  have b: "fst (init_portal_session_and_channels stub_lib (scripted [handshake_T1, html_page, catalog_two])
            ''http://portal.example.com'' ''00:1A:79:00:13:DA'' ''1'' [])
       = Inr (mac_session, sample_headers, JArr [news_channel, local_channel])"
    using js
    by (simp add: init_scripted_handshake Let_def scripted_def html_page_def resp_ok_def
        catalog_two_def json_reply_def catalog_channels_200 mac_session_def sample_headers_def
        auth_headers_def portal_prefix_def)
  have c: "has_js_key error_with_js"
    by (simp add: has_js_key_def error_with_js_def)
  have d: "fst (init_portal_session_and_channels stub_lib (scripted [handshake_T1, error_with_js, catalog_two])
            ''http://portal.example.com'' ''00:1A:79:00:13:DA'' ''1'' [])
       = Inl (RuntimeError ''Profile validation failed'')"
    by (simp add: init_scripted_handshake Let_def scripted_def error_with_js_def resp_ok_def)
  from a b c d show ?thesis by simp
qed

lemma authorization_header:
  "map_of (auth_headers base pt tok) ''Authorization'' = Some (''Bearer '' @ tok)"
  by (simp add: auth_headers_def base_headers_def)

text \<open>
  C6 (as amended). The first request of an acquisition is an HTTP POST to
  \<open>{base}/{prefix}/server/load.php?action=handshake&type=stb&token=&JsHttpRequest=1-xml\<close>
  with the fixed set-top-box headers, the cookie \<open>mac\<close> and a timeout of 10 seconds. When
  the reply has status 200 and a JSON body whose \<open>js.token\<close> is a non-empty string, the
  requests that follow are the profile request and, once the profile reply is accepted, the
  catalogue request; every request after the handshake carries that token as
  \<open>Authorization: Bearer <token>\<close>, and so do the headers a successful acquisition returns.
\<close>

theorem handshake_is_post:
  "(\<exists>rest. snd (init_portal_session_and_channels lib up base mac pt sent)
       = sent @ \<lparr>req_method = POST,
                 req_url = base @ ''/'' @ portal_prefix pt
                   @ ''/server/load.php?action=handshake&type=stb&token=&JsHttpRequest=1-xml'',
                 req_headers = base_headers base (portal_prefix pt),
                 req_cookies = [(''mac'', mac)],
                 req_timeout = 10\<rparr> # rest)
   \<and> (\<forall>r kv js tok.
         up sent (handshake_request base mac pt) = Some r \<and> status_code r = 200
         \<and> resp_json r = Some (JObj kv) \<and> map_of kv ''js'' = Some (JObj js)
         \<and> map_of js ''token'' = Some (JStr tok) \<and> tok \<noteq> [] \<longrightarrow>
           (snd (init_portal_session_and_channels lib up base mac pt sent)
              = sent @ [handshake_request base mac pt, profile_request lib base mac pt tok]
            \<or> snd (init_portal_session_and_channels lib up base mac pt sent)
              = sent @ [handshake_request base mac pt, profile_request lib base mac pt tok,
                        channels_request base mac pt tok])
           \<and> list_all (\<lambda>rq. map_of (req_headers rq) ''Authorization'' = Some (''Bearer '' @ tok))
                 (drop (Suc (length sent))
                    (snd (init_portal_session_and_channels lib up base mac pt sent)))
           \<and> (\<forall>r2. up (sent @ [handshake_request base mac pt])
                       (profile_request lib base mac pt tok) = Some r2
                    \<and> resp_ok r2 \<and> str_contains ''js'' (resp_text r2) \<longrightarrow>
                  snd (init_portal_session_and_channels lib up base mac pt sent)
                    = sent @ [handshake_request base mac pt, profile_request lib base mac pt tok,
                              channels_request base mac pt tok])
           \<and> (\<forall>s h ch. fst (init_portal_session_and_channels lib up base mac pt sent)
                           = Inr (s, h, ch) \<longrightarrow>
                  map_of h ''Authorization'' = Some (''Bearer '' @ tok)))"
proof -
  have first: "\<exists>rest. snd (init_portal_session_and_channels lib up base mac pt sent)
       = sent @ \<lparr>req_method = POST,
                 req_url = base @ ''/'' @ portal_prefix pt
                   @ ''/server/load.php?action=handshake&type=stb&token=&JsHttpRequest=1-xml'',
                 req_headers = base_headers base (portal_prefix pt),
                 req_cookies = [(''mac'', mac)],
                 req_timeout = 10\<rparr> # rest"
    using init_handshake_sent [of lib up base mac pt sent]
    by (simp add: handshake_request_def)
  have after: "(snd (init_portal_session_and_channels lib up base mac pt sent)
              = sent @ [handshake_request base mac pt, profile_request lib base mac pt tok]
            \<or> snd (init_portal_session_and_channels lib up base mac pt sent)
              = sent @ [handshake_request base mac pt, profile_request lib base mac pt tok,
                        channels_request base mac pt tok])
           \<and> list_all (\<lambda>rq. map_of (req_headers rq) ''Authorization'' = Some (''Bearer '' @ tok))
                 (drop (Suc (length sent))
                    (snd (init_portal_session_and_channels lib up base mac pt sent)))
           \<and> (\<forall>r2. up (sent @ [handshake_request base mac pt])
                       (profile_request lib base mac pt tok) = Some r2
                    \<and> resp_ok r2 \<and> str_contains ''js'' (resp_text r2) \<longrightarrow>
                  snd (init_portal_session_and_channels lib up base mac pt sent)
                    = sent @ [handshake_request base mac pt, profile_request lib base mac pt tok,
                              channels_request base mac pt tok])
           \<and> (\<forall>s h ch. fst (init_portal_session_and_channels lib up base mac pt sent)
                           = Inr (s, h, ch) \<longrightarrow>
                  map_of h ''Authorization'' = Some (''Bearer '' @ tok))"
    if h: "up sent (handshake_request base mac pt) = Some r \<and> status_code r = 200
         \<and> resp_json r = Some (JObj kv) \<and> map_of kv ''js'' = Some (JObj js)
         \<and> map_of js ''token'' = Some (JStr tok) \<and> tok \<noteq> []"
    for r kv js tok
  proof -
    from h have a: "up sent (handshake_request base mac pt) = Some r" by simp
    from h have b: "handshake_js r = Inr (JObj js)"
      by (simp add: handshake_js_def resp_ok_def)
    from h have d: "dict_get (JObj js) ''token'' JNull = Inr (JStr tok)" by simp
    from h have e: "truthy (JStr tok)" by simp
    note unfolded = init_after_token [where up = up and sent = sent and lib = lib, OF a b d e,
        unfolded Let_def format_value_def json.case]
    have pr: "map_of (req_headers (profile_request lib base mac pt tok)) ''Authorization''
        = Some (''Bearer '' @ tok)"
      by (simp add: profile_request_def authorization_header)
    have cr: "map_of (req_headers (channels_request base mac pt tok)) ''Authorization''
        = Some (''Bearer '' @ tok)"
      by (simp add: channels_request_def authorization_header)
    show ?thesis
      unfolding unfolded using pr cr
      by (auto simp: authorization_header split: option.splits sum.splits)
  qed
  from first after show ?thesis by blast
qed

theorem handshake_is_post_witness:
  "snd (init_portal_session_and_channels stub_lib (scripted two_script)
          ''http://portal.example.com'' ''00:1A:79:00:13:DA'' ''1'' [])
     = [handshake_request ''http://portal.example.com'' ''00:1A:79:00:13:DA'' ''1'',
        profile_request stub_lib ''http://portal.example.com'' ''00:1A:79:00:13:DA'' ''1'' ''T1'',
        channels_request ''http://portal.example.com'' ''00:1A:79:00:13:DA'' ''1'' ''T1'']
   \<and> list_all (\<lambda>rq. map_of (req_headers rq) ''Authorization'' = Some (''Bearer '' @ ''T1''))
         (drop (Suc (length ([] :: request list)))
            (snd (init_portal_session_and_channels stub_lib (scripted two_script)
                    ''http://portal.example.com'' ''00:1A:79:00:13:DA'' ''1'' [])))"
proof -
  let ?hr = "handshake_request ''http://portal.example.com'' ''00:1A:79:00:13:DA'' ''1''"
  let ?pr = "profile_request stub_lib ''http://portal.example.com'' ''00:1A:79:00:13:DA'' ''1'' ''T1''"
  let ?r1 = "\<lparr>status_code = 200, resp_text = ''{\"js\":{\"token\":\"T1\"}}'',
               resp_json = Some (JObj [(''js'', JObj [(''token'', JStr ''T1'')])])\<rparr>"
  let ?r2 = "\<lparr>status_code = 200, resp_text = ''{\"js\":{}}'',
               resp_json = Some (JObj [(''js'', JObj [])])\<rparr>"
  have h: "scripted two_script [] ?hr = Some ?r1 \<and> status_code ?r1 = 200
      \<and> resp_json ?r1 = Some (JObj [(''js'', JObj [(''token'', JStr ''T1'')])])
      \<and> map_of [(''js'', JObj [(''token'', JStr ''T1'')])] ''js'' = Some (JObj [(''token'', JStr ''T1'')])
      \<and> map_of [(''token'', JStr ''T1'')] ''token'' = Some (JStr ''T1'') \<and> ''T1'' \<noteq> []"
    by (simp add: scripted_def two_script_def handshake_T1_def json_reply_def)
  have p: "scripted two_script ([] @ [?hr]) ?pr = Some ?r2 \<and> resp_ok ?r2
      \<and> str_contains ''js'' (resp_text ?r2)"
    by (simp add: scripted_def two_script_def profile_ok_def json_reply_def resp_ok_def
        str_startswith_def)
  note T = handshake_is_post [where up = "scripted two_script" and sent = "[]" and lib = stub_lib
      and base = "''http://portal.example.com''" and mac = "''00:1A:79:00:13:DA''" and pt = "''1''",
      THEN conjunct2, rule_format, of ?r1 "[(''js'', JObj [(''token'', JStr ''T1'')])]"
      "[(''token'', JStr ''T1'')]" "''T1''", OF h]
  from T have "list_all (\<lambda>rq. map_of (req_headers rq) ''Authorization'' = Some (''Bearer '' @ ''T1''))
         (drop (Suc (length ([] :: request list)))
            (snd (init_portal_session_and_channels stub_lib (scripted two_script)
                    ''http://portal.example.com'' ''00:1A:79:00:13:DA'' ''1'' [])))"
    by blast
  moreover from T p have "snd (init_portal_session_and_channels stub_lib (scripted two_script)
          ''http://portal.example.com'' ''00:1A:79:00:13:DA'' ''1'' [])
     = [] @ [?hr, ?pr, channels_request ''http://portal.example.com'' ''00:1A:79:00:13:DA'' ''1'' ''T1'']"
    by blast
  ultimately show ?thesis by simp
qed

text \<open>
  C6 as stated fails on the method: the first request of the acquisition is a POST.
\<close>

theorem handshake_not_get:
  "req_method (hd (snd (init_portal_session_and_channels stub_lib (scripted two_script)
                          ''http://portal.example.com'' ''00:1A:79:00:13:DA'' ''1'' []))) = POST
   \<and> req_method (hd (snd (init_portal_session_and_channels stub_lib (scripted two_script)
                          ''http://portal.example.com'' ''00:1A:79:00:13:DA'' ''1'' []))) \<noteq> GET"
  by (simp add: init_sample sample_sent_def handshake_request_def)

text \<open>
  C7 (the code departs from it). The profile URL carries the truncated serial, the signature
  and, under both \<open>device_id\<close> and \<open>device_id2\<close>, the digest of the raw MAC. The digest of the
  truncated serial is computed as \<open>Device_ID2\<close> and never sent.
\<close>

theorem profile_url_repeats_device_id:
  "profile_url lib base prefix mac
     = base @ ''/'' @ prefix @ ''/server/load.php?type=stb&action=get_profile&sn=''
         @ take 13 (str_upper (md5_hex lib mac))
         @ ''&device_id='' @ str_upper (sha256_hex lib mac)
         @ ''&device_id2='' @ str_upper (sha256_hex lib mac)
         @ ''&signature='' @ str_upper (sha256_hex lib (take 13 (str_upper (md5_hex lib mac)) @ mac))
         @ ''&JsHttpRequest=1-xml''
   \<and> Device_ID2 (generate_device_info lib mac)
       = str_upper (sha256_hex lib (take 13 (str_upper (md5_hex lib mac))))
   \<and> profile_url stub_lib ''http://portal.example.com'' ''stalker_portal'' ''00:1A:79:00:13:DA''
       = ''http://portal.example.com/stalker_portal/server/load.php?type=stb&action=get_profile&sn=MD5:00:1A:79:&device_id=SHA256:00:1A:79:00:13:DA&device_id2=SHA256:00:1A:79:00:13:DA&signature=SHA256:MD5:00:1A:79:00:1A:79:00:13:DA&JsHttpRequest=1-xml''
   \<and> Device_ID2 (generate_device_info stub_lib ''00:1A:79:00:13:DA'') = ''SHA256:MD5:00:1A:79:''"
proof -
  have a: "profile_url lib base prefix mac
     = base @ ''/'' @ prefix @ ''/server/load.php?type=stb&action=get_profile&sn=''
         @ take 13 (str_upper (md5_hex lib mac))
         @ ''&device_id='' @ str_upper (sha256_hex lib mac)
         @ ''&device_id2='' @ str_upper (sha256_hex lib mac)
         @ ''&signature='' @ str_upper (sha256_hex lib (take 13 (str_upper (md5_hex lib mac)) @ mac))
         @ ''&JsHttpRequest=1-xml''"
    by (simp add: profile_url_def generate_device_info_def Let_def)
  have b: "Device_ID2 (generate_device_info lib mac)
       = str_upper (sha256_hex lib (take 13 (str_upper (md5_hex lib mac))))"
    by (simp add: generate_device_info_def Let_def)
  have c: "profile_url stub_lib ''http://portal.example.com'' ''stalker_portal'' ''00:1A:79:00:13:DA''
       = ''http://portal.example.com/stalker_portal/server/load.php?type=stb&action=get_profile&sn=MD5:00:1A:79:&device_id=SHA256:00:1A:79:00:13:DA&device_id2=SHA256:00:1A:79:00:13:DA&signature=SHA256:MD5:00:1A:79:00:1A:79:00:13:DA&JsHttpRequest=1-xml''"
    by code_simp
  have d: "Device_ID2 (generate_device_info stub_lib ''00:1A:79:00:13:DA'') = ''SHA256:MD5:00:1A:79:''"
    by code_simp
  from a b c d show ?thesis by simp
qed

subsection \<open>Stripping and replacing\<close>

lemma last_dropWhile:
  "dropWhile P xs \<noteq> [] \<Longrightarrow> last (dropWhile P xs) = last xs"
  by (induction xs) (auto split: if_splits)

lemma str_rstrip_last:
  "str_rstrip s \<noteq> [] \<Longrightarrow> \<not> is_space (last (str_rstrip s))"
proof -
  assume ne: "str_rstrip s \<noteq> []"
  then have d: "dropWhile is_space (rev s) \<noteq> []"
    by (simp add: str_rstrip_def)
  then have "\<not> is_space (hd (dropWhile is_space (rev s)))"
    by (rule hd_dropWhile)
  moreover have "last (str_rstrip s) = hd (dropWhile is_space (rev s))"
    using d by (simp add: str_rstrip_def last_rev)
  ultimately show ?thesis by simp
qed

lemma str_strip_last:
  "str_strip s \<noteq> [] \<Longrightarrow> \<not> is_space (last (str_strip s))"
proof -
  assume ne: "str_strip s \<noteq> []"
  then have "last (str_strip s) = last (str_rstrip s)"
    by (simp add: str_strip_def str_lstrip_def last_dropWhile)
  moreover from ne have "str_rstrip s \<noteq> []"
    by (auto simp: str_strip_def str_lstrip_def)
  ultimately show ?thesis
    using str_rstrip_last by simp
qed

lemma str_strip_keeps:
  assumes "t \<noteq> []" and "\<not> is_space (last t)"
  shows "str_strip t \<noteq> []"
proof -
  from assms have r: "str_rstrip t = t"
    by (cases t rule: rev_cases) (simp_all add: str_rstrip_def)
  from assms have "\<exists>x\<in>set t. \<not> is_space x"
    using last_in_set by blast
  then have "dropWhile is_space t \<noteq> []"
    by (simp add: dropWhile_eq_Nil_conv)
  with r show ?thesis
    by (simp add: str_strip_def str_lstrip_def)
qed

lemma replace_nonempty_last:
  "new = [] \<Longrightarrow> old \<noteq> [] \<Longrightarrow> is_space (last old) \<Longrightarrow> s \<noteq> [] \<Longrightarrow> \<not> is_space (last s) \<Longrightarrow>
     replace_nonempty old new s \<noteq> [] \<and> last (replace_nonempty old new s) = last s"
proof (induction old new s rule: replace_nonempty.induct)
  case (1 old new)
  then show ?case by simp
next
  case (2 old new c cs)
  show ?case
  proof (cases "str_startswith old (c # cs)")
    case True
    then have pre: "take (length old) (c # cs) = old"
      by (simp add: str_startswith_def)
    have differ: "c # cs \<noteq> old"
    proof
      assume "c # cs = old"
      with "2.prems"(3) have "is_space (last (c # cs))" by simp
      with "2.prems"(5) show False by simp
    qed
    have longer: "length old < length (c # cs)"
    proof (rule ccontr)
      assume "\<not> length old < length (c # cs)"
      then have "take (length old) (c # cs) = c # cs" by simp
      with pre differ show False by simp
    qed
    from "2.prems"(2) have "length old - 1 < length cs"
      using longer by (cases old) auto
    then have ne: "drop (length old - 1) cs \<noteq> []" by simp
    then have l: "last (drop (length old - 1) cs) = last (c # cs)"
      by (cases cs) (auto simp: last_drop)
    from "2.prems"(5) l have "\<not> is_space (last (drop (length old - 1) cs))" by simp
    from "2.IH"(1) [OF True "2.prems"(1,2,3) ne this] l True "2.prems"(1) show ?thesis
      by simp
  next
    case False
    show ?thesis
    proof (cases cs)
      case Nil
      with False show ?thesis by simp
    next
      case (Cons d ds)
      with "2.prems" have "cs \<noteq> []" "\<not> is_space (last cs)" by auto
      from "2.IH"(2) [OF False "2.prems"(1,2,3) this] False Cons show ?thesis
        by simp
    qed
  qed
qed

lemma ffmpeg_removed_nonempty:
  assumes "str_strip raw \<noteq> []"
  shows "str_strip (str_replace ''ffmpeg '' [] (str_strip raw)) \<noteq> []"
proof -
  let ?cmd = "str_strip raw"
  have sp: "is_space (last ''ffmpeg '')"
    by (simp add: is_space_def)
  from assms have "\<not> is_space (last ?cmd)"
    by (rule str_strip_last)
  with assms have "replace_nonempty ''ffmpeg '' [] ?cmd \<noteq> []
      \<and> last (replace_nonempty ''ffmpeg '' [] ?cmd) = last ?cmd"
    using sp by (intro replace_nonempty_last) simp_all
  with \<open>\<not> is_space (last ?cmd)\<close> show ?thesis
    by (intro str_strip_keeps) (simp_all add: str_replace_def)
qed

subsection \<open>The \<open>getlink\<close> route\<close>

lemma find_in_list_truthy:
  "find_in_list cs n = Inr (Some ch) \<Longrightarrow> truthy ch"
proof (induction cs)
  case Nil
  then show ?case by simp
next
  case (Cons c cs)
  show ?case
  proof (cases "is_dict c")
    case False
    then have "dict_get c ''id'' JNull = Inl AttributeError"
      by (cases c) simp_all
    with Cons.prems show ?thesis by simp
  next
    case True
    then obtain kv where c: "c = JObj kv"
      by (cases c) simp_all
    show ?thesis
    proof (cases "id_matches (case map_of kv ''id'' of None \<Rightarrow> JNull | Some v \<Rightarrow> v) n")
      case True
      then have "kv \<noteq> []"
        by (auto simp: id_matches_def)
      moreover from True c Cons.prems have "ch = JObj kv" by simp
      ultimately show ?thesis by simp
    next
      case False
      with c Cons.prems have "find_in_list cs n = Inr (Some ch)" by simp
      then show ?thesis by (rule Cons.IH)
    qed
  qed
qed

lemma find_channel_truthy:
  "find_channel chans n = Inr (Some ch) \<Longrightarrow> truthy ch"
proof (cases chans)
  case (JArr cs)
  assume "find_channel chans n = Inr (Some ch)"
  with JArr have "find_in_list cs n = Inr (Some ch)"
    by (simp add: find_channel_def)
  then show ?thesis by (rule find_in_list_truthy)
qed (simp_all add: find_channel_def split: if_splits)

lemma find_channel_not_null:
  "find_channel chans n = Inr (Some ch) \<Longrightarrow> chans \<noteq> JNull"
  by (auto simp: find_channel_def)

lemma reachable_after_call:
  "reachable lib cfg c0 \<Longrightarrow> ensure_cache lib cfg up now later (c0, sent0) = (r, c, sent) \<Longrightarrow>
     reachable lib cfg c"
  by (rule reachable.call)

lemma link_loop_sends:
  "snd (link_loop up (Some s) u h (Suc n) sent) \<noteq> sent"
proof -
  obtain m where "snd (link_loop up (Some s) u h (Suc n) sent)
      = sent @ replicate m (mk_request s GET u h 8)" and "m \<le> Suc n"
    using link_loop_bound [of "Suc n" up s u h sent] by blast
  moreover have "m \<noteq> 0"
  proof
    assume "m = 0"
    with calculation have same: "snd (link_loop up (Some s) u h (Suc n) sent) = sent" by simp
    obtain k where "k \<le> n" and "snd (link_loop up (Some s) u h n (sent @ [mk_request s GET u h 8]))
        = (sent @ [mk_request s GET u h 8]) @ replicate k (mk_request s GET u h 8)"
      using link_loop_bound [of n up s u h "sent @ [mk_request s GET u h 8]"] by blast
    then have "snd (link_loop up (Some s) u h (Suc n) sent) \<noteq> sent"
      by (simp add: link_loop_step del: link_loop.simps split: option.splits)
    with same show False by simp
  qed
  ultimately show ?thesis by (cases m) auto
qed

lemma getlink_found:
  assumes "ensure_cache lib cfg up now later st = (Inr (), c, sent)"
    and "find_channel (c_channels c) ch_id = Inr (Some ch)"
    and "dict_get ch ''cmd'' (JStr []) = Inr (JStr raw)"
    and "str_strip raw \<noteq> []"
  shows "getlink lib cfg up now later ch_id st =
     (case (if str_contains ''ffmpeg'' (str_strip raw)
            then (Some (str_strip (str_replace ''ffmpeg '' [] (str_strip raw))), sent)
            else create_link up (str_rstrip_char CHR ''/'' (PORTAL_BASE_URL cfg))
                   (str_strip raw) (c_session c)
                   (case c_headers c of None \<Rightarrow> [] | Some h \<Rightarrow> h)
                   (PORTAL_TYPE cfg) 3 sent) of
        (None, sent') \<Rightarrow> (ErrorJson ''failed_to_create_link'' 502, c, sent')
      | (Some real_url, sent') \<Rightarrow>
          if real_url = [] then (ErrorJson ''failed_to_create_link'' 502, c, sent')
          else (Redirect real_url, c, sent'))"
proof -
  have t: "truthy ch"
    using assms(2) by (rule find_channel_truthy)
  show ?thesis
    unfolding getlink_def assms(1) prod.case sum.case assms(2) option.case
    using t assms(3,4) by (simp add: Let_def)
qed

text \<open>
  C10. Let a call of \<open>getlink\<close> find the channel, with a command that is a string and is not
  blank. If \<open>ffmpeg\<close> occurs anywhere in the stripped command, the reply is a redirect to the
  command with every \<open>ffmpeg \<close> removed and the blanks around it stripped, and nothing is
  sent beyond what \<open>ensure_cache\<close> sent. If it does not occur, \<open>create_link\<close> is run with 3
  retries and sends at least one request, and its result decides the reply. So the requests
  sent are those of \<open>ensure_cache\<close> alone exactly when \<open>ffmpeg\<close> occurs in the command.
\<close>

theorem getlink_direct_iff_ffmpeg:
  assumes "reachable lib cfg c0"
    and "ensure_cache lib cfg up now later (c0, sent0) = (Inr (), c, sent)"
    and "find_channel (c_channels c) ch_id = Inr (Some ch)"
    and "dict_get ch ''cmd'' (JStr []) = Inr (JStr raw)"
    and "str_strip raw \<noteq> []"
  shows
    "(str_contains ''ffmpeg'' (str_strip raw) \<longrightarrow>
        getlink lib cfg up now later ch_id (c0, sent0)
          = (Redirect (str_strip (str_replace ''ffmpeg '' [] (str_strip raw))), c, sent))
     \<and> (\<not> str_contains ''ffmpeg'' (str_strip raw) \<longrightarrow>
          (\<exists>res sent'.
             create_link up (str_rstrip_char CHR ''/'' (PORTAL_BASE_URL cfg)) (str_strip raw)
                 (c_session c) (case c_headers c of None \<Rightarrow> [] | Some h \<Rightarrow> h)
                 (PORTAL_TYPE cfg) 3 sent = (res, sent')
             \<and> sent' \<noteq> sent
             \<and> getlink lib cfg up now later ch_id (c0, sent0)
                 = ((case res of
                       None \<Rightarrow> ErrorJson ''failed_to_create_link'' 502
                     | Some u \<Rightarrow> if u = [] then ErrorJson ''failed_to_create_link'' 502
                                 else Redirect u), c, sent')))
     \<and> ((snd (snd (getlink lib cfg up now later ch_id (c0, sent0))) = sent)
          = str_contains ''ffmpeg'' (str_strip raw))"
proof -
  let ?cmd = "str_strip raw"
  let ?link = "create_link up (str_rstrip_char CHR ''/'' (PORTAL_BASE_URL cfg)) ?cmd
                 (c_session c) (case c_headers c of None \<Rightarrow> [] | Some h \<Rightarrow> h)
                 (PORTAL_TYPE cfg) 3 sent"
  have direct: "getlink lib cfg up now later ch_id (c0, sent0)
      = (Redirect (str_strip (str_replace ''ffmpeg '' [] ?cmd)), c, sent)"
    if "str_contains ''ffmpeg'' ?cmd"
    using that ffmpeg_removed_nonempty [OF assms(5)]
    by (simp add: getlink_found [OF assms(2-5)])
  have "reachable lib cfg c"
    using assms(1,2) by (rule reachable_after_call)
  then have "c = initial_cache \<or> (\<exists>up0 later0 sent0 sent1. written_by lib cfg up0 later0 sent0 sent1 c)"
    using reachable_written by blast
  moreover have "c \<noteq> initial_cache"
    using find_channel_not_null [OF assms(3)] by (auto simp: initial_cache_def)
  ultimately obtain s where s: "c_session c = Some s"
    using written_by_fields by blast
  have sends: "snd ?link \<noteq> sent"
    unfolding create_link_def s numeral_3_eq_3 by (rule link_loop_sends)
  have negotiated: "getlink lib cfg up now later ch_id (c0, sent0)
      = ((case fst ?link of
            None \<Rightarrow> ErrorJson ''failed_to_create_link'' 502
          | Some u \<Rightarrow> if u = [] then ErrorJson ''failed_to_create_link'' 502 else Redirect u),
         c, snd ?link)"
    if "\<not> str_contains ''ffmpeg'' ?cmd"
    using that
    by (cases ?link) (simp add: getlink_found [OF assms(2-5)] split: option.splits)
  show ?thesis
  proof (intro conjI impI)
    assume "str_contains ''ffmpeg'' ?cmd"
    then show "getlink lib cfg up now later ch_id (c0, sent0)
          = (Redirect (str_strip (str_replace ''ffmpeg '' [] ?cmd)), c, sent)"
      by (rule direct)
  next
    assume n: "\<not> str_contains ''ffmpeg'' ?cmd"
    have "?link = (fst ?link, snd ?link)" by simp
    with sends negotiated [OF n]
    show "\<exists>res sent'. ?link = (res, sent') \<and> sent' \<noteq> sent
             \<and> getlink lib cfg up now later ch_id (c0, sent0)
                 = ((case res of
                       None \<Rightarrow> ErrorJson ''failed_to_create_link'' 502
                     | Some u \<Rightarrow> if u = [] then ErrorJson ''failed_to_create_link'' 502
                                 else Redirect u), c, sent')"
      by blast
  next
    show "(snd (snd (getlink lib cfg up now later ch_id (c0, sent0))) = sent)
          = str_contains ''ffmpeg'' ?cmd"
    proof (cases "str_contains ''ffmpeg'' ?cmd")
      case True
      with direct show ?thesis by simp
    next
      case False
      with negotiated sends show ?thesis by simp
    qed
  qed
qed

lemma sample_hit:
  "ensure_cache stub_lib sample_cfg up 1 1 (two_cache, sample_sent) = (Inr (), two_cache, sample_sent)"
  by (rule ensure_cache_hit) (simp add: fresh_def two_cache_def)

lemma sample_reachable: "reachable stub_lib sample_cfg two_cache"
  by (rule reachable.call [OF reachable.start sample_refresh])

theorem getlink_direct_iff_ffmpeg_witness:
  "getlink stub_lib sample_cfg (scripted []) 1 1 7 (two_cache, sample_sent)
     = (Redirect ''http://x/stream'', two_cache, sample_sent)
   \<and> snd (snd (getlink stub_lib sample_cfg (scripted []) 1 1 5 (two_cache, sample_sent)))
       \<noteq> sample_sent"
proof -
  have f7: "find_channel (c_channels two_cache) 7 = Inr (Some local_channel)"
    by (simp add: find_channel_def two_cache_def news_channel_def local_channel_def id_matches_def)
  have c7: "dict_get local_channel ''cmd'' (JStr []) = Inr (JStr ''ffmpeg http://x/stream'')"
    by (simp add: local_channel_def)
  have s7: "str_strip ''ffmpeg http://x/stream'' = ''ffmpeg http://x/stream''"
    by code_simp
  have n7: "str_strip ''ffmpeg http://x/stream'' \<noteq> []"
    by (simp add: s7)
  have in7: "str_contains ''ffmpeg'' (str_strip ''ffmpeg http://x/stream'')"
    by code_simp
  have r7: "str_strip (str_replace ''ffmpeg '' [] (str_strip ''ffmpeg http://x/stream''))
      = ''http://x/stream''"
    by code_simp
  from getlink_direct_iff_ffmpeg [OF sample_reachable sample_hit f7 c7 n7, THEN conjunct1] in7 r7
  have a: "getlink stub_lib sample_cfg (scripted []) 1 1 7 (two_cache, sample_sent)
     = (Redirect ''http://x/stream'', two_cache, sample_sent)"
    by simp
  have f5: "find_channel (c_channels two_cache) 5 = Inr (Some news_channel)"
    by (simp add: find_channel_def two_cache_def news_channel_def id_matches_def)
  have c5: "dict_get news_channel ''cmd'' (JStr []) = Inr (JStr ''ffrt http://n/play'')"
    by (simp add: news_channel_def)
  have n5: "str_strip ''ffrt http://n/play'' \<noteq> []"
    by code_simp
  have in5: "\<not> str_contains ''ffmpeg'' (str_strip ''ffrt http://n/play'')"
    by code_simp
  from getlink_direct_iff_ffmpeg [OF sample_reachable sample_hit f5 c5 n5,
      THEN conjunct2, THEN conjunct2] in5
  have b: "snd (snd (getlink stub_lib sample_cfg (scripted []) 1 1 5 (two_cache, sample_sent)))
       \<noteq> sample_sent"
    by simp
  from a b show ?thesis by simp
qed

subsection \<open>\<open>normalize_url_and_name\<close> in closed form\<close>

lemma scheme_facts:
  "scheme_char CHR ''h''" "scheme_char CHR ''t''" "scheme_char CHR ''p''" "scheme_char CHR ''s''"
  "ascii_alpha CHR ''h''" "str_lower ''http'' = ''http''" "str_lower ''https'' = ''https''"
  by (simp_all add: scheme_char_def ascii_alpha_def str_lower_def lower_char_def)

lemma check_bool:
  "(if A \<and> \<not> B then L else if B \<and> \<not> A then L else if A \<and> B \<and> \<not> C then L
    else if D \<and> \<not> E \<and> \<not> F then L else R)
   = (if (if A then B \<and> C else \<not> B) \<and> (\<not> D \<or> E \<or> F) then R else L)"
  by (cases A; cases B; cases C; cases D; cases E; cases F) simp_all

lemma netloc_check:
  "(if CHR ''['' \<in> set n \<and> CHR '']'' \<notin> set n then Inl ValueError
    else if CHR '']'' \<in> set n \<and> CHR ''['' \<notin> set n then Inl ValueError
    else if CHR ''['' \<in> set n \<and> CHR '']'' \<in> set n \<and> \<not> bracketed_host_ok lib n
    then Inl ValueError
    else if n \<noteq> [] \<and> \<not> list_all is_ascii n \<and> \<not> nfkc_ok lib n then Inl ValueError
    else Inr x)
   = (if netloc_accepted lib n then Inr x else Inl ValueError)"
  unfolding netloc_accepted_def
  by (rule check_bool [where D = "n \<noteq> []", simplified not_not])

lemma urlsplit_http:
  "urlsplit lib (''http://'' @ r) =
     (if netloc_accepted lib (host_part r)
      then Inr (''http'', host_part r, dropWhile netloc_char (without_tab_cr_lf r))
      else Inl ValueError)"
proof -
  have a: "dropWhile (\<lambda>c. (of_char c :: nat) \<le> 32) (''http://'' @ r) = ''http://'' @ r"
    by simp
  have b: "filter (\<lambda>c. c \<notin> set [CHR 0x09, CHR 0x0D, CHR 0x0A]) (''http://'' @ r)
      = ''http://'' @ without_tab_cr_lf r"
    by (simp add: without_tab_cr_lf_def)
  have pre: "takeWhile (\<lambda>c. c \<noteq> CHR '':'') (''http://'' @ without_tab_cr_lf r) = ''http''"
    by simp
  have sp: "(CHR '':'' \<in> set (''http://'' @ without_tab_cr_lf r) \<and> ''http'' \<noteq> []
      \<and> ascii_alpha (hd (''http://'' @ without_tab_cr_lf r)) \<and> list_all scheme_char ''http'') = True"
    by (simp add: scheme_facts)
  have dr: "drop (length ''http'' + 1) (''http://'' @ without_tab_cr_lf r)
      = ''//'' @ without_tab_cr_lf r"
    by simp
  have tk: "take 2 (''//'' @ without_tab_cr_lf r) = ''//''"
       "drop 2 (''//'' @ without_tab_cr_lf r) = without_tab_cr_lf r"
    by simp_all
  show ?thesis
    unfolding urlsplit_def a b Let_def pre sp if_True dr tk netloc_check
    by (simp only: scheme_facts host_part_def simp_thms if_True)
qed

lemma urlsplit_https:
  "urlsplit lib (''https://'' @ r) =
     (if netloc_accepted lib (host_part r)
      then Inr (''https'', host_part r, dropWhile netloc_char (without_tab_cr_lf r))
      else Inl ValueError)"
proof -
  have a: "dropWhile (\<lambda>c. (of_char c :: nat) \<le> 32) (''https://'' @ r) = ''https://'' @ r"
    by simp
  have b: "filter (\<lambda>c. c \<notin> set [CHR 0x09, CHR 0x0D, CHR 0x0A]) (''https://'' @ r)
      = ''https://'' @ without_tab_cr_lf r"
    by (simp add: without_tab_cr_lf_def)
  have pre: "takeWhile (\<lambda>c. c \<noteq> CHR '':'') (''https://'' @ without_tab_cr_lf r) = ''https''"
    by simp
  have sp: "(CHR '':'' \<in> set (''https://'' @ without_tab_cr_lf r) \<and> ''https'' \<noteq> []
      \<and> ascii_alpha (hd (''https://'' @ without_tab_cr_lf r)) \<and> list_all scheme_char ''https'') = True"
    by (simp add: scheme_facts)
  have dr: "drop (length ''https'' + 1) (''https://'' @ without_tab_cr_lf r)
      = ''//'' @ without_tab_cr_lf r"
    by simp
  have tk: "take 2 (''//'' @ without_tab_cr_lf r) = ''//''"
       "drop 2 (''//'' @ without_tab_cr_lf r) = without_tab_cr_lf r"
    by simp_all
  show ?thesis
    unfolding urlsplit_def a b Let_def pre sp if_True dr tk netloc_check
    by (simp only: scheme_facts host_part_def simp_thms if_True)
qed

lemma urlsplit_scheme_only:
  "urlsplit lib ''http:'' = Inr (''http'', [], [])"
  "urlsplit lib ''https:'' = Inr (''https'', [], [])"
  by (simp_all add: urlsplit_def Let_def scheme_facts)

lemmas urlsplit_http_cons = urlsplit_http [simplified]

lemmas urlsplit_https_cons = urlsplit_https [simplified]

lemma host_part_chars:
  "c \<in> set (host_part r) \<Longrightarrow> netloc_char c \<and> c \<notin> set [CHR 0x09, CHR 0x0D, CHR 0x0A]"
proof -
  assume "c \<in> set (host_part r)"
  then have "netloc_char c" and "c \<in> set (without_tab_cr_lf r)"
    unfolding host_part_def by (auto dest: set_takeWhileD)
  then show ?thesis
    by (simp add: without_tab_cr_lf_def)
qed

lemma host_part_again: "host_part (host_part r) = host_part r"
proof -
  have "without_tab_cr_lf (host_part r) = host_part r"
    unfolding without_tab_cr_lf_def using host_part_chars [of _ r]
    by (intro filter_True) blast
  moreover have "takeWhile netloc_char (host_part r) = host_part r"
    using host_part_chars [of _ r] by (simp add: takeWhile_eq_all_conv)
  ultimately show ?thesis
    by (simp add: host_part_def)
qed

lemma host_part_rest: "dropWhile netloc_char (without_tab_cr_lf (host_part r)) = []"
proof -
  have "without_tab_cr_lf (host_part r) = host_part r"
    unfolding without_tab_cr_lf_def using host_part_chars [of _ r]
    by (intro filter_True) blast
  then show ?thesis
    using host_part_chars [of _ r] by (simp add: dropWhile_eq_Nil_conv)
qed

lemma rstrip_slash_host:
  assumes "n \<noteq> []" and "CHR ''/'' \<notin> set n"
  shows "str_rstrip_char CHR ''/'' (p @ n @ ''/'') = p @ n"
proof -
  from assms(1) obtain ys y where n: "n = ys @ [y]"
    by (cases n rule: rev_cases) auto
  with assms(2) have "y \<noteq> CHR ''/''" by auto
  then show ?thesis
    by (simp add: str_rstrip_char_def n)
qed

lemma rstrip_slash_no_host:
  "str_rstrip_char CHR ''/'' (''http:///'') = ''http:''"
  "str_rstrip_char CHR ''/'' (''https:///'') = ''https:''"
  by (simp_all add: str_rstrip_char_def)

lemma name_of_empty: "name_of [] = []"
  by (simp add: name_of_def str_replace_def str_lower_def)

lemma normalize_tail_http:
  "(case urljoin_root lib (''http://'' @ r) of
      Inl e \<Rightarrow> Inl e
    | Inr joined \<Rightarrow>
        (let url = str_rstrip_char CHR ''/'' joined
         in case urlsplit lib url of
              Inl e \<Rightarrow> Inl e
            | Inr (scheme, netloc, rest) \<Rightarrow>
                (let name_part =
                       (if CHR ''.'' \<in> set netloc
                        then concat (last_two (str_split CHR ''.'' netloc))
                        else str_replace ''.'' [] netloc)
                 in Inr (url, str_lower name_part))))
   = normalized lib ''http'' r"
proof (cases "netloc_accepted lib (host_part r)")
  case False
  then show ?thesis
    by (simp add: urljoin_root_def urlsplit_http_cons normalized_def)
next
  case ok: True
  show ?thesis
  proof (cases "host_part r = []")
    case True
    with ok show ?thesis
      using name_of_empty
      by (simp add: urljoin_root_def urlsplit_http_cons normalized_def rstrip_slash_no_host
          urlsplit_scheme_only Let_def name_of_def)
  next
    case False
    have slash: "CHR ''/'' \<notin> set (host_part r)"
      using host_part_chars [of "CHR ''/''" r] by (auto simp: netloc_char_def)
    have strip: "str_rstrip_char CHR ''/'' (''http://'' @ host_part r @ ''/'') = ''http://'' @ host_part r"
      by (rule rstrip_slash_host [OF False slash])
    have again: "urlsplit lib (''http://'' @ host_part r) = Inr (''http'', host_part r, [])"
      using ok by (simp add: urlsplit_http_cons host_part_again host_part_rest)
    from ok False strip again show ?thesis
      by (simp add: urljoin_root_def urlsplit_http_cons normalized_def Let_def name_of_def)
  qed
qed

lemma normalize_tail_https:
  "(case urljoin_root lib (''https://'' @ r) of
      Inl e \<Rightarrow> Inl e
    | Inr joined \<Rightarrow>
        (let url = str_rstrip_char CHR ''/'' joined
         in case urlsplit lib url of
              Inl e \<Rightarrow> Inl e
            | Inr (scheme, netloc, rest) \<Rightarrow>
                (let name_part =
                       (if CHR ''.'' \<in> set netloc
                        then concat (last_two (str_split CHR ''.'' netloc))
                        else str_replace ''.'' [] netloc)
                 in Inr (url, str_lower name_part))))
   = normalized lib ''https'' r"
proof (cases "netloc_accepted lib (host_part r)")
  case False
  then show ?thesis
    by (simp add: urljoin_root_def urlsplit_https_cons normalized_def)
next
  case ok: True
  show ?thesis
  proof (cases "host_part r = []")
    case True
    with ok show ?thesis
      using name_of_empty
      by (simp add: urljoin_root_def urlsplit_https_cons normalized_def rstrip_slash_no_host
          urlsplit_scheme_only Let_def name_of_def)
  next
    case False
    have slash: "CHR ''/'' \<notin> set (host_part r)"
      using host_part_chars [of "CHR ''/''" r] by (auto simp: netloc_char_def)
    have strip: "str_rstrip_char CHR ''/'' (''https://'' @ host_part r @ ''/'') = ''https://'' @ host_part r"
      by (rule rstrip_slash_host [OF False slash])
    have again: "urlsplit lib (''https://'' @ host_part r) = Inr (''https'', host_part r, [])"
      using ok by (simp add: urlsplit_https_cons host_part_again host_part_rest)
    from ok False strip again show ?thesis
      by (simp add: urljoin_root_def urlsplit_https_cons normalized_def Let_def name_of_def)
  qed
qed

lemma startswith_http:
  "str_startswith ''http://'' u \<Longrightarrow> u = ''http://'' @ drop 7 u"
proof -
  have l: "length ''http://'' = 7" by simp
  assume "str_startswith ''http://'' u"
  then have "take 7 u = ''http://''"
    unfolding str_startswith_def l .
  then show ?thesis
    using append_take_drop_id [of 7 u] by metis
qed

lemma startswith_https:
  "str_startswith ''https://'' u \<Longrightarrow> u = ''https://'' @ drop 8 u"
proof -
  have l: "length ''https://'' = 8" by simp
  assume "str_startswith ''https://'' u"
  then have "take 8 u = ''https://''"
    unfolding str_startswith_def l .
  then show ?thesis
    using append_take_drop_id [of 8 u] by metis
qed

lemma normalize_closed_form:
  "normalize_url_and_name lib x = (case after_scheme x of (sch, r) \<Rightarrow> normalized lib sch r)"
proof -
  let ?u = "str_strip x"
  consider (http) "str_startswith ''http://'' ?u"
    | (https) "\<not> str_startswith ''http://'' ?u" "str_startswith ''https://'' ?u"
    | (bare) "\<not> str_startswith ''http://'' ?u" "\<not> str_startswith ''https://'' ?u"
    by blast
  then show ?thesis
  proof cases
    case http
    then have u: "?u = ''http://'' @ drop 7 ?u"
      by (rule startswith_http)
    have "normalize_url_and_name lib x = normalized lib ''http'' (drop 7 ?u)"
      unfolding normalize_url_and_name_def Let_def using http
      by (simp only: simp_thms if_False) (subst u, rule normalize_tail_http [unfolded Let_def])
    with http show ?thesis
      by (simp add: after_scheme_def Let_def)
  next
    case https
    from https(2) have u: "?u = ''https://'' @ drop 8 ?u"
      by (rule startswith_https)
    have "normalize_url_and_name lib x = normalized lib ''https'' (drop 8 ?u)"
      unfolding normalize_url_and_name_def Let_def using https
      by (simp only: simp_thms if_False) (subst u, rule normalize_tail_https [unfolded Let_def])
    with https show ?thesis
      by (simp add: after_scheme_def Let_def)
  next
    case bare
    have "normalize_url_and_name lib x = normalized lib ''http'' ?u"
      unfolding normalize_url_and_name_def Let_def using bare
      by (simp only: simp_thms if_True) (rule normalize_tail_http [unfolded Let_def])
    with bare show ?thesis
      by (simp add: after_scheme_def Let_def)
  qed
qed

lemma after_scheme_cases:
  "fst (after_scheme x) = ''http'' \<or> fst (after_scheme x) = ''https''"
  by (simp add: after_scheme_def Let_def)

lemma strip_fixed:
  assumes "b \<noteq> []" and "\<not> is_space (hd b)" and "\<not> is_space (last b)"
  shows "str_strip b = b"
proof -
  from assms(1,3) have "str_rstrip b = b"
    by (cases b rule: rev_cases) (simp_all add: str_rstrip_def)
  moreover from assms(1,2) have "str_lstrip b = b"
    by (cases b) (simp_all add: str_lstrip_def)
  ultimately show ?thesis
    by (simp add: str_strip_def)
qed

lemma normalize_again:
  assumes sch: "sch = ''http'' \<or> sch = ''https''"
    and ok: "netloc_accepted lib (host_part r)"
    and host: "host_part r \<noteq> []"
    and last: "\<not> is_space (last (sch @ ''://'' @ host_part r))"
  shows "normalize_url_and_name lib (sch @ ''://'' @ host_part r)
     = Inr (sch @ ''://'' @ host_part r, name_of (host_part r))"
proof -
  let ?b = "sch @ ''://'' @ host_part r"
  have hd: "\<not> is_space (hd ?b)"
    using sch by (auto simp: is_space_def)
  have "?b \<noteq> []" by simp
  then have strip: "str_strip ?b = ?b"
    using hd last by (rule strip_fixed)
  have "after_scheme ?b = (sch, host_part r)"
    using sch unfolding after_scheme_def strip Let_def
    by (auto simp: str_startswith_def)
  then show ?thesis
    using ok host by (simp add: normalize_closed_form normalized_def host_part_again)
qed

text \<open>
  C9 (as amended). \<open>normalize_url_and_name\<close> fails only with a \<open>ValueError\<close>, and exactly
  when \<open>urlsplit\<close> rejects the host part of its input: square brackets of one kind only, a
  bracketed host the library finds invalid, or a host that is not ASCII and fails the NFKC
  check. On every other input it returns a pair. It is idempotent on its output whenever
  the returned base URL has a host (it is not the bare \<open>http:\<close> or \<open>https:\<close>) and does not
  end in a blank.
\<close>

theorem normalize_idempotent_with_host:
  "(normalize_url_and_name lib x = Inl e \<longrightarrow>
      e = ValueError \<and> \<not> netloc_accepted lib (host_part (snd (after_scheme x))))
   \<and> (netloc_accepted lib (host_part (snd (after_scheme x))) \<longrightarrow>
        (\<exists>b n. normalize_url_and_name lib x = Inr (b, n)))
   \<and> (normalize_url_and_name lib x = Inr (b, n) \<and> has_host b \<and> \<not> is_space (last b) \<longrightarrow>
        normalize_url_and_name lib b = Inr (b, n))"
proof -
  have fails: "e = ValueError \<and> \<not> netloc_accepted lib (host_part (snd (after_scheme x)))"
    if "normalize_url_and_name lib x = Inl e"
    using that
    by (cases "after_scheme x")
      (auto simp: normalize_closed_form normalized_def split: if_splits)
  have returns: "\<exists>b n. normalize_url_and_name lib x = Inr (b, n)"
    if "netloc_accepted lib (host_part (snd (after_scheme x)))"
    using that
    by (cases "after_scheme x") (auto simp: normalize_closed_form normalized_def)
  have again: "normalize_url_and_name lib b = Inr (b, n)"
    if a: "normalize_url_and_name lib x = Inr (b, n) \<and> has_host b \<and> \<not> is_space (last b)"
  proof -
    obtain sch r where sr: "after_scheme x = (sch, r)"
      by (cases "after_scheme x")
    with after_scheme_cases [of x] have sch: "sch = ''http'' \<or> sch = ''https''" by simp
    from a sr have n: "normalized lib sch r = Inr (b, n)"
      by (simp add: normalize_closed_form)
    then have ok: "netloc_accepted lib (host_part r)"
      by (auto simp: normalized_def split: if_splits)
    have host: "host_part r \<noteq> []"
    proof
      assume "host_part r = []"
      with n ok have "b = sch @ '':''" by (simp add: normalized_def)
      with sch a show False
        by (auto simp: has_host_def str_startswith_def)
    qed
    with n ok have b: "b = sch @ ''://'' @ host_part r" and nm: "n = name_of (host_part r)"
      by (simp_all add: normalized_def)
    from a b have "\<not> is_space (last (sch @ ''://'' @ host_part r))" by simp
    from normalize_again [OF sch ok host this] b nm
    show ?thesis by simp
  qed
  from fails returns again show ?thesis by blast
qed

theorem normalize_idempotent_with_host_witness:
  "normalize_url_and_name stub_lib ''example.com'' = Inr (''http://example.com'', ''examplecom'')
   \<and> normalize_url_and_name stub_lib ''http://example.com'' = Inr (''http://example.com'', ''examplecom'')"
proof -
  have a: "normalize_url_and_name stub_lib ''example.com'' = Inr (''http://example.com'', ''examplecom'')"
    by code_simp
  have b: "has_host ''http://example.com''"
    by code_simp
  have c: "\<not> is_space (last ''http://example.com'')"
    by code_simp
  from normalize_idempotent_with_host [of stub_lib "''example.com''" ValueError
      "''http://example.com''" "''examplecom''"] a b c
  have "normalize_url_and_name stub_lib ''http://example.com'' = Inr (''http://example.com'', ''examplecom'')"
    by blast
  with a show ?thesis by simp
qed

text \<open>
  C9 as stated fails three times. The empty input is normalised to the base URL \<open>http:\<close>
  with an empty name, and normalising \<open>http:\<close> gives \<open>http://http:\<close> with the name
  \<open>http:\<close>. A host that ends in a blank keeps the blank in the base URL, and normalising
  that base URL strips it. And the input \<open>[\<close> raises a \<open>ValueError\<close>.
\<close>

theorem normalize_not_idempotent_at_empty:
  "normalize_url_and_name stub_lib [] = Inr (''http:'', [])
   \<and> normalize_url_and_name stub_lib ''http:'' = Inr (''http://http:'', ''http:'')
   \<and> normalize_url_and_name stub_lib ''http://a /'' = Inr (''http://a '', ''a '')
   \<and> normalize_url_and_name stub_lib ''http://a '' = Inr (''http://a'', ''a'')
   \<and> normalize_url_and_name stub_lib ''['' = Inl ValueError"
  by code_simp

end
